theory Spec2Isabelle
  imports Complex_Main
begin

section \<open>Data model of \<open>src/components/SolarSystem.js\<close>\<close>

text \<open>
  The component is one React effect. It builds a three.js scene graph, starts a
  \<open>requestAnimationFrame\<close> loop, registers a resize listener and returns a cleanup
  closure.

  \<^item> JavaScript numbers are modelled as \<^typ>\<open>real\<close>: the claims are about the
    formulas the loop evaluates, not about rounding. A quotient of the model is the
    quotient of the program where the divisor is not zero.
  \<^item> Objects of the scene graph are shared between the scene and the \<open>planets\<close>
    array, so they live in an explicit store (a list indexed by object identity) and are
    referred to by index. A reference is always the index of an object that was
    allocated before.
  \<^item> What the environment supplies is a parameter: the window, the value of
    \<open>Date.now()\<close>, the children of the container \<open>mountRef.current\<close>, and what
    \<open>controls.update()\<close> of three.js' OrbitControls does to the camera.
  \<^item> Texture loading, tone mapping, the background style and the construction of the
    controls write nothing that the loop, the listener or the cleanup read; they are
    left out. A material keeps the path of its texture.
\<close>

record vec3 =
  vec_x :: real
  vec_y :: real
  vec_z :: real

definition vec :: "real \<Rightarrow> real \<Rightarrow> real \<Rightarrow> vec3" where
  "vec a b c = \<lparr>vec_x = a, vec_y = b, vec_z = c\<rparr>"

definition normalize :: "vec3 \<Rightarrow> vec3" where
  \<comment> \<open>\<open>Vector3.normalize\<close>: divide by the length, or by 1 when the length is 0.\<close>
  "normalize v =
     (let l = sqrt (vec_x v * vec_x v + vec_y v * vec_y v + vec_z v * vec_z v);
          d = (if l = 0 then 1 else l)
      in vec (vec_x v / d) (vec_y v / d) (vec_z v / d))"

datatype geometry =
    SphereGeometry real nat nat
  | RingGeometry real real nat
  | BufferGeometry "real list"

datatype material =
    MeshBasicMaterial string
  | MeshStandardMaterial string
  | LineBasicMaterial

datatype kind =
    Scene
  | AmbientLight
  | DirectionalLight
  | Mesh geometry material
  | SpriteText "string option"
  | LineLoop geometry material

record object3d =
  kind :: kind
  position :: vec3
  rotation :: vec3
  children :: "nat list"
  parent :: "nat option"

record planet =
  mesh :: nat
  distance :: real
  rotationSpeed :: real
  orbitSpeed :: real

text \<open>
  \<open>projection_aspect\<close> is the aspect ratio with which the projection matrix was last
  computed (by the constructor or by \<open>updateProjectionMatrix\<close>). The renderer keeps the
  size it was last given by \<open>setSize\<close>.
\<close>

record camera =
  fov :: real
  aspect :: real
  near :: real
  far :: real
  cam_position :: vec3
  projection_aspect :: real

record renderer =
  width :: real
  height :: real
  pixelRatio :: real

datatype dom_node = Canvas | Element nat

record window =
  innerWidth :: real
  innerHeight :: real
  devicePixelRatio :: real

datatype error = TypeError | NotFoundError

record world =
  heap :: "object3d list"
  scene :: nat
  sun :: nat
  planets :: "planet list"
  camera :: camera
  renderer :: renderer
  mountRef :: "dom_node list option"
  rafRequests :: nat
  resizeListeners :: nat
  framesRendered :: nat

section \<open>Scene-graph primitives\<close>

definition new_object :: "kind \<Rightarrow> object3d" where
  "new_object k =
     \<lparr>kind = k, position = vec 0 0 0, rotation = vec 0 0 0, children = [], parent = None\<rparr>"

definition alloc :: "object3d \<Rightarrow> object3d list \<Rightarrow> nat \<times> object3d list" where
  "alloc ob h = (length h, h @ [ob])"

definition add :: "nat \<Rightarrow> nat \<Rightarrow> object3d list \<Rightarrow> object3d list" where
  \<comment> \<open>\<open>p.add(c)\<close> for a freshly created \<open>c\<close>: \<open>c.parent = p; p.children.push(c)\<close>.\<close>
  "add p c h =
     (let h1 = h[c := (h ! c)\<lparr>parent := Some p\<rparr>]
      in h1[p := (h1 ! p)\<lparr>children := children (h1 ! p) @ [c]\<rparr>])"

definition set_position :: "nat \<Rightarrow> vec3 \<Rightarrow> object3d list \<Rightarrow> object3d list" where
  "set_position i v h = h[i := (h ! i)\<lparr>position := v\<rparr>]"

definition set_rotation_x :: "nat \<Rightarrow> real \<Rightarrow> object3d list \<Rightarrow> object3d list" where
  "set_rotation_x i a h = h[i := (h ! i)\<lparr>rotation := (rotation (h ! i))\<lparr>vec_x := a\<rparr>\<rparr>]"

definition nth_opt :: "'a list \<Rightarrow> nat \<Rightarrow> 'a option" where
  \<comment> \<open>\<open>xs[i]\<close>: \<open>undefined\<close> (here \<open>None\<close>) out of range.\<close>
  "nth_opt xs i = (if i < length xs then Some (xs ! i) else None)"

fun indexOf_from :: "int \<Rightarrow> 'a list \<Rightarrow> 'a \<Rightarrow> int" where
  "indexOf_from i [] a = -1"
| "indexOf_from i (b # bs) a = (if b = a then i else indexOf_from (i + 1) bs a)"

definition indexOf :: "'a list \<Rightarrow> 'a \<Rightarrow> int" where
  \<comment> \<open>\<open>Array.prototype.indexOf\<close>: first index of the element, or \<open>-1\<close>.\<close>
  "indexOf xs a = indexOf_from 0 xs a"

section \<open>The registry arrays\<close>

definition planetTextures :: "string list" where
  "planetTextures =
     [''/assets/textures/mercury.jpg'',
      ''/assets/textures/venus.jpg'',
      ''/assets/textures/earth.jpg'',
      ''/assets/textures/mars.jpg'',
      ''/assets/textures/jupiter.jpg'',
      ''/assets/textures/saturn.jpg'',
      ''/assets/textures/uranys.jpg'',
      ''/assets/textures/neptune.jpg'']"

definition planetDistances :: "real list" where
  "planetDistances = [20, 30, 40, 50, 60, 70, 80, 100]"

definition planetNames :: "string list" where
  "planetNames =
     [''Mercury'', ''Venus'', ''Earth'', ''Mars'', ''Jupiter'', ''Saturn'', ''Uranus'', ''Neptune'']"

section \<open>Scene build\<close>

definition addPlanet ::
  "string list \<Rightarrow> object3d list \<times> planet list \<Rightarrow> nat \<times> string \<Rightarrow> object3d list \<times> planet list"
where
  \<comment> \<open>The callback of \<open>planetTextures.forEach((texturePath, i) => ...)\<close>; object 0 is the
      scene. \<open>planetDistances[i]\<close> is in range for every index of \<open>planetTextures\<close>.\<close>
  "addPlanet names st it =
     (let h = fst st; ps = snd st; i = fst it; texturePath = snd it;
          (pl, h1) = alloc (new_object (Mesh (SphereGeometry 2 32 32) (MeshStandardMaterial texturePath))) h;
          h2 = set_position pl (vec (planetDistances ! i) 0 0) h1;
          h3 = add 0 pl h2;
          ps1 = ps @ [\<lparr>mesh = pl, distance = planetDistances ! i,
                       rotationSpeed = 0.01 * (real i + 1), orbitSpeed = 0.02 / (real i + 1)\<rparr>];
          (nameText, h4) = alloc (new_object (SpriteText (nth_opt names i))) h3;
          h5 = set_position nameText (vec 0 3 0) h4;
          h6 = add pl nameText h5
      in (h6, ps1))"

definition createSaturnRings :: "real \<Rightarrow> object3d list \<Rightarrow> nat \<times> object3d list" where
  \<comment> \<open>\<open>createSaturnRings(size)\<close>: a new ring mesh, turned by \<open>pi / 2\<close> about x.\<close>
  "createSaturnRings sz h =
     (let (rings, h1) = alloc (new_object (Mesh (RingGeometry (sz * 1.3) (sz * 1.5) 64)
                                 (MeshBasicMaterial ''/assets/textures/saturn-ring.png''))) h
      in (rings, set_rotation_x rings (pi / 2) h1))"

definition orbitPositions :: "real \<Rightarrow> real list" where
  \<comment> \<open>The \<open>positions\<close> array of \<open>createOrbit\<close>: 64 points and the first one again.\<close>
  "orbitPositions radius =
     (let segments = 64 :: nat;
          angleStep = (pi * 2) / real segments;
          positions = concat (map (\<lambda>i. [cos (real i * angleStep) * radius, 0,
                                           sin (real i * angleStep) * radius]) [0..<segments])
      in positions @ [positions ! 0, 0, positions ! 2])"

definition createOrbit :: "real \<Rightarrow> object3d list \<Rightarrow> nat \<times> object3d list" where
  "createOrbit radius h =
     (let (orbitLine, h1) = alloc (new_object (LineLoop (BufferGeometry (orbitPositions radius))
                                     LineBasicMaterial)) h
      in (orbitLine, set_rotation_x orbitLine (pi / 2) h1))"

definition addOrbit :: "object3d list \<Rightarrow> real \<Rightarrow> object3d list" where
  \<comment> \<open>The callback of \<open>planetDistances.forEach(distance => ...)\<close>.\<close>
  "addOrbit h d = (let (orbit, h1) = createOrbit d h in add 0 orbit h1)"

definition buildScene :: "string list \<Rightarrow> error + (object3d list \<times> nat \<times> planet list)" where
  \<comment> \<open>Lines 12 and 39 to 145 of the effect, with the array \<open>planetNames\<close> as a parameter.
      The result is the store, the sun and the \<open>planets\<close> array; the scene is object 0.\<close>
  "buildScene names =
     (let (sc, h0) = alloc (new_object Scene) [];
          (ambientLight, h1) = alloc (new_object AmbientLight) h0;
          (directionalLight, h2) = alloc (new_object DirectionalLight) h1;
          h3 = set_position directionalLight (normalize (vec 10 10 10)) h2;
          h4 = add sc ambientLight h3;
          h5 = add sc directionalLight h4;
          (sn, h6) = alloc (new_object (Mesh (SphereGeometry 10 64 64)
                              (MeshBasicMaterial ''/assets/textures/sun.jpg''))) h5;
          h7 = add sc sn h6;
          (h8, ps) = foldl (addPlanet names) (h7, []) (enumerate 0 planetTextures);
          saturnIndex = indexOf names ''Saturn''
      in case (if saturnIndex \<noteq> -1
               then (if nat saturnIndex < length ps
                     then (let (saturnRing, h9) = createSaturnRings 2 h8
                           in Inr (add (mesh (ps ! nat saturnIndex)) saturnRing h9))
                     else Inl TypeError)
               else Inr h8) of
           Inl e \<Rightarrow> Inl e
         | Inr h10 \<Rightarrow> Inr (foldl addOrbit h10 planetDistances, sn, ps))"

section \<open>The animation loop, the resize listener and the cleanup\<close>

definition updatePlanet :: "real \<Rightarrow> object3d list \<Rightarrow> planet \<Rightarrow> object3d list" where
  \<comment> \<open>The callback of \<open>planets.forEach\<close> in \<open>animate\<close>: three assignments on the mesh.\<close>
  "updatePlanet time h p =
     (let m = h ! mesh p;
          m1 = m\<lparr>position := (position m)\<lparr>vec_x := distance p * cos (time * orbitSpeed p)\<rparr>\<rparr>;
          m2 = m1\<lparr>position := (position m1)\<lparr>vec_z := distance p * sin (time * orbitSpeed p)\<rparr>\<rparr>;
          m3 = m2\<lparr>rotation := (rotation m2)\<lparr>vec_y := vec_y (rotation m2) + rotationSpeed p\<rparr>\<rparr>
      in h[mesh p := m3])"

definition animate :: "(camera \<Rightarrow> camera) \<Rightarrow> real \<Rightarrow> world \<Rightarrow> world" where
  \<comment> \<open>One run of \<open>animate\<close>. \<open>now\<close> is the value of \<open>Date.now()\<close>; \<open>ctl\<close> is what
      \<open>controls.update()\<close> (three.js' OrbitControls, not part of the repository) does to
      the camera on this run; \<open>renderer.render\<close> is counted.\<close>
  "animate ctl now w =
     (let w1 = w\<lparr>rafRequests := rafRequests w + 1\<rparr>;
          h = heap w1;
          s = h ! sun w1;
          h1 = h[sun w1 := s\<lparr>rotation := (rotation s)\<lparr>vec_y := vec_y (rotation s) + 0.01\<rparr>\<rparr>];
          time = now * 0.0005;
          h2 = foldl (updatePlanet time) h1 (planets w1)
      in w1\<lparr>heap := h2, camera := ctl (camera w1), framesRendered := framesRendered w1 + 1\<rparr>)"

definition frame :: "(camera \<Rightarrow> camera) \<Rightarrow> real \<Rightarrow> world \<Rightarrow> world" where
  \<comment> \<open>The browser runs one pending \<open>requestAnimationFrame\<close> callback, if there is one.\<close>
  "frame ctl now w =
     (if rafRequests w = 0 then w else animate ctl now (w\<lparr>rafRequests := rafRequests w - 1\<rparr>))"

definition onResize :: "window \<Rightarrow> world \<Rightarrow> world" where
  \<comment> \<open>The resize listener; \<open>win\<close> is the window at the time of the event.\<close>
  "onResize win w =
     (let c1 = (camera w)\<lparr>aspect := innerWidth win / innerHeight win\<rparr>;
          c2 = c1\<lparr>projection_aspect := aspect c1\<rparr>
      in w\<lparr>camera := c2,
           renderer := (renderer w)\<lparr>width := innerWidth win, height := innerHeight win\<rparr>\<rparr>)"

definition removeChild :: "dom_node \<Rightarrow> dom_node list \<Rightarrow> error + dom_node list" where
  \<comment> \<open>\<open>Node.removeChild\<close>: throws \<open>NotFoundError\<close> when the node is not a child.\<close>
  "removeChild n cs = (if n \<in> set cs then Inr (removeAll n cs) else Inl NotFoundError)"

definition appendChild :: "dom_node \<Rightarrow> dom_node list \<Rightarrow> dom_node list" where
  \<comment> \<open>\<open>Node.appendChild\<close>: a node that is already a child is moved to the end.\<close>
  "appendChild n cs = removeAll n cs @ [n]"

definition cleanup :: "world \<Rightarrow> error + world" where
  \<comment> \<open>The closure the effect returns: \<open>mountRef.current.removeChild(renderer.domElement)\<close>.\<close>
  "cleanup w =
     (case mountRef w of
        None \<Rightarrow> Inl TypeError
      | Some cs \<Rightarrow>
          (case removeChild Canvas cs of
             Inl e \<Rightarrow> Inl e
           | Inr cs' \<Rightarrow> Inr (w\<lparr>mountRef := Some cs'\<rparr>)))"

definition mountWith ::
  "string list \<Rightarrow> (camera \<Rightarrow> camera) \<Rightarrow> window \<Rightarrow> real \<Rightarrow> dom_node list option \<Rightarrow> error + world"
where
  \<comment> \<open>The effect body. \<open>win\<close> is the window, \<open>now\<close> the value of \<open>Date.now()\<close> in the
      first run of \<open>animate\<close>, \<open>ref\<close> the children of \<open>mountRef.current\<close> (\<open>None\<close> for a
      null ref).\<close>
  "mountWith names ctl win now ref =
     (let cam = \<lparr>fov = 75, aspect = innerWidth win / innerHeight win, near = 0.1, far = 1000,
                  cam_position = vec 0 50 150,
                  projection_aspect = innerWidth win / innerHeight win\<rparr>;
          rend = \<lparr>width = innerWidth win, height = innerHeight win,
                   pixelRatio = devicePixelRatio win\<rparr>
      in case ref of
           None \<Rightarrow> Inl TypeError
         | Some cs \<Rightarrow>
             (case buildScene names of
                Inl e \<Rightarrow> Inl e
              | Inr (h, sn, ps) \<Rightarrow>
                  (let w0 = \<lparr>heap = h, scene = 0, sun = sn, planets = ps, camera = cam,
                             renderer = rend, mountRef = Some (appendChild Canvas cs),
                             rafRequests = 0, resizeListeners = 0, framesRendered = 0\<rparr>;
                       w1 = animate ctl now w0
                   in Inr (w1\<lparr>resizeListeners := resizeListeners w1 + 1\<rparr>))))"

definition mount :: "(camera \<Rightarrow> camera) \<Rightarrow> window \<Rightarrow> real \<Rightarrow> dom_node list option \<Rightarrow> error + world" where
  \<comment> \<open>The effect as it is written, with the \<open>planetNames\<close> of the source.\<close>
  "mount = mountWith planetNames"

section \<open>Host events\<close>

datatype event = Frame "camera \<Rightarrow> camera" real | Resize window | Unmount

fun step :: "world \<Rightarrow> event \<Rightarrow> world" where
  \<comment> \<open>What the host does to a mounted component: it runs a pending animation frame, it
      fires the resize listener, or it calls the cleanup closure (an exception thrown by
      the closure leaves the state as it was).\<close>
  "step w (Frame ctl now) = frame ctl now w"
| "step w (Resize win) = onResize win w"
| "step w Unmount = (case cleanup w of Inl e \<Rightarrow> w | Inr w' \<Rightarrow> w')"

definition run :: "world \<Rightarrow> event list \<Rightarrow> world" where
  "run w evs = foldl step w evs"

fun isFrame :: "event \<Rightarrow> bool" where
  "isFrame (Frame ctl now) = True"
| "isFrame e = False"

definition frames :: "event list \<Rightarrow> nat" where
  "frames evs = length (filter isFrame evs)"

section \<open>Observations on a world\<close>

fun traverse :: "nat \<Rightarrow> nat list list \<Rightarrow> nat \<Rightarrow> nat list option" where
  \<comment> \<open>\<open>Object3D.traverse\<close> on the table of child lists, in visiting order; the first
      argument bounds the depth, and \<open>None\<close> means the bound was too small or a child
      does not exist.\<close>
  "traverse 0 cs i = None"
| "traverse (Suc f) cs i =
     (if i < length cs
      then map_option (\<lambda>xs. i # concat xs) (those (map (traverse f cs) (cs ! i)))
      else None)"

definition sceneObjects :: "object3d list \<Rightarrow> nat list option" where
  \<comment> \<open>The scene (object 0) and every object below it.\<close>
  "sceneObjects h = traverse (length h) (map children h) 0"

fun isRing :: "kind \<Rightarrow> bool" where
  "isRing (Mesh (RingGeometry a b n) m) = True"
| "isRing k = False"

definition ringAttachments :: "object3d list \<Rightarrow> nat list option" where
  "ringAttachments h =
     map_option (filter (\<lambda>i. map (\<lambda>ob. isRing (kind ob)) h ! i)) (sceneObjects h)"

definition ringParents :: "object3d list \<Rightarrow> nat option list option" where
  \<comment> \<open>The parent of every ring attachment of the scene.\<close>
  "ringParents h = map_option (map (\<lambda>r. map parent h ! r)) (ringAttachments h)"

fun spriteText :: "kind \<Rightarrow> string option" where
  "spriteText (SpriteText t) = t"
| "spriteText k = None"

definition labelOf :: "object3d list \<Rightarrow> nat \<Rightarrow> string option" where
  \<comment> \<open>The text of the label of a body: its first child.\<close>
  "labelOf h m =
     (case map children h ! m of [] \<Rightarrow> None | c # cs \<Rightarrow> spriteText (map kind h ! c))"

definition sceneObjectCount :: "world \<Rightarrow> nat option" where
  \<comment> \<open>The number of objects below the scene.\<close>
  "sceneObjectCount w = map_option (\<lambda>xs. length xs - 1) (sceneObjects (heap w))"

definition planetPosition :: "world \<Rightarrow> planet \<Rightarrow> vec3" where
  "planetPosition w p = position (heap w ! mesh p)"

definition selfRotationAngle :: "world \<Rightarrow> planet \<Rightarrow> real" where
  "selfRotationAngle w p = vec_y (rotation (heap w ! mesh p))"

definition wellFormed :: "world \<Rightarrow> bool" where
  \<comment> \<open>The planets refer to distinct objects of the store, none of them the sun, and a
      frame is pending.\<close>
  "wellFormed w \<longleftrightarrow>
     distinct (map mesh (planets w)) \<and>
     list_all (\<lambda>p. mesh p < length (heap w) \<and> mesh p \<noteq> sun w) (planets w) \<and>
     sun w < length (heap w) \<and> 0 < rafRequests w"

definition onPlane :: "world \<Rightarrow> bool" where
  "onPlane w \<longleftrightarrow> list_all (\<lambda>p. vec_y (position (heap w ! mesh p)) = 0) (planets w)"

definition sceneFacts :: "string list \<Rightarrow> object3d list \<Rightarrow> planet list \<Rightarrow> bool" where
  \<comment> \<open>An invariant, not a part of the program: what the proofs below use of the store
      and the \<open>planets\<close> array that \<open>buildScene\<close> returns. Lemma \<open>build_facts\<close>
      proves it of \<open>buildScene\<close>.\<close>
  "sceneFacts names h ps \<longleftrightarrow>
     map mesh ps = [4, 6, 8, 10, 12, 14, 16, 18] \<and>
     map distance ps = [20, 30, 40, 50, 60, 70, 80, 100] \<and>
     map rotationSpeed ps = [0.01, 0.02, 0.03, 0.04, 0.05, 0.06, 0.07, 0.08] \<and>
     map orbitSpeed ps = [0.02, 0.02 / 2, 0.02 / 3, 0.02 / 4, 0.02 / 5, 0.02 / 6, 0.02 / 7, 0.02 / 8] \<and>
     length h = 28 + (if indexOf names ''Saturn'' = -1 then 0 else 1) \<and>
     list_all (\<lambda>p. position (h ! mesh p) = vec (distance p) 0 0 \<and>
                   rotation (h ! mesh p) = vec 0 0 0) ps \<and>
     rotation (h ! 3) = vec 0 0 0 \<and>
     map_option length (sceneObjects h) = Some (length h) \<and>
     map_option distinct (sceneObjects h) = Some True \<and>
     length (children (h ! 0)) = 19 \<and>
     map (\<lambda>p. kind (h ! mesh p)) ps =
       map (\<lambda>i. Mesh (SphereGeometry 2 32 32) (MeshStandardMaterial (planetTextures ! i)))
         [0, 1, 2, 3, 4, 5, 6, 7] \<and>
     map (\<lambda>p. labelOf h (mesh p)) ps = map (nth_opt names) [0, 1, 2, 3, 4, 5, 6, 7] \<and>
     ringAttachments h = Some (if indexOf names ''Saturn'' = -1 then [] else [20]) \<and>
     map (\<lambda>p. children (h ! mesh p)) ps =
       map (\<lambda>i. if indexOf names ''Saturn'' = int i then [5 + 2 * i, 20] else [5 + 2 * i])
         [0, 1, 2, 3, 4, 5, 6, 7] \<and>
     (indexOf names ''Saturn'' \<noteq> -1 \<longrightarrow>
        parent (h ! 20) = Some (mesh (ps ! nat (indexOf names ''Saturn''))))"

section \<open>Example inputs\<close>

definition exampleWindow :: window where
  "exampleWindow = \<lparr>innerWidth = 800, innerHeight = 600, devicePixelRatio = 1\<rparr>"

definition mountedAt :: "real \<Rightarrow> world" where
  \<comment> \<open>The world after the effect ran with \<open>Date.now() = now\<close> in an empty container.\<close>
  "mountedAt now = projr (mount id exampleWindow now (Some []))"

section \<open>The animation loop on a store\<close>

lemma updatePlanet_length: "length (updatePlanet t h p) = length h"
  by (simp add: updatePlanet_def Let_def)

lemma foldl_updatePlanet_length: "length (foldl (updatePlanet t) h ps) = length h"
  by (induction ps arbitrary: h) (simp_all add: updatePlanet_length)

lemma updatePlanet_other: "i \<noteq> mesh p \<Longrightarrow> updatePlanet t h p ! i = h ! i"
  by (simp add: updatePlanet_def Let_def)

lemma foldl_updatePlanet_other:
  "i \<notin> set (map mesh ps) \<Longrightarrow> foldl (updatePlanet t) h ps ! i = h ! i"
  by (induction ps arbitrary: h) (simp_all add: updatePlanet_other)

lemma updatePlanet_self:
  "mesh p < length h \<Longrightarrow>
   updatePlanet t h p ! mesh p =
     (h ! mesh p)\<lparr>position := (position (h ! mesh p))
                     \<lparr>vec_x := distance p * cos (t * orbitSpeed p),
                      vec_z := distance p * sin (t * orbitSpeed p)\<rparr>,
                  rotation := (rotation (h ! mesh p))
                     \<lparr>vec_y := vec_y (rotation (h ! mesh p)) + rotationSpeed p\<rparr>\<rparr>"
  by (simp add: updatePlanet_def Let_def)

lemma foldl_updatePlanet_self:
  assumes "distinct (map mesh ps)" and "p \<in> set ps" and "mesh p < length h"
  shows "foldl (updatePlanet t) h ps ! mesh p = updatePlanet t h p ! mesh p"
  using assms
proof (induction ps arbitrary: h)
  case Nil
  then show ?case by simp
next
  case (Cons q qs)
  show ?case
  proof (cases "mesh q = mesh p")
    case True
    with Cons.prems have notin: "mesh p \<notin> set (map mesh qs)" and pq: "p = q"
      by (auto simp: image_iff)
    have "foldl (updatePlanet t) (updatePlanet t h q) qs ! mesh p = updatePlanet t h q ! mesh p"
      using notin by (rule foldl_updatePlanet_other)
    also have "\<dots> = updatePlanet t h p ! mesh p"
      using pq by simp
    finally show ?thesis by simp
  next
    case False
    with Cons.prems have mem: "p \<in> set qs" and dist: "distinct (map mesh qs)" by auto
    have len: "mesh p < length (updatePlanet t h q)"
      using Cons.prems(3) by (simp add: updatePlanet_length)
    have "foldl (updatePlanet t) (updatePlanet t h q) qs ! mesh p
            = updatePlanet t (updatePlanet t h q) p ! mesh p"
      using dist mem len by (rule Cons.IH)
    also have "\<dots> = updatePlanet t h p ! mesh p"
      using False Cons.prems(3)
      by (simp add: updatePlanet_self updatePlanet_length updatePlanet_other)
    finally show ?thesis by simp
  qed
qed

lemma map_field_update:
  assumes "f v = f (h ! i)"
  shows "map f (h[i := v]) = map f h"
proof (cases "i < length h")
  case True
  then show ?thesis using assms by (simp add: map_update list_update_same_conv)
next
  case False
  then show ?thesis by (simp add: list_update_beyond)
qed

lemma updatePlanet_skeleton:
  "map kind (updatePlanet t h p) = map kind h"
  "map children (updatePlanet t h p) = map children h"
  "map parent (updatePlanet t h p) = map parent h"
  by (simp_all add: updatePlanet_def Let_def map_field_update)

lemma foldl_updatePlanet_skeleton:
  "map kind (foldl (updatePlanet t) h ps) = map kind h"
  "map children (foldl (updatePlanet t) h ps) = map children h"
  "map parent (foldl (updatePlanet t) h ps) = map parent h"
  by (induction ps arbitrary: h) (simp_all add: updatePlanet_skeleton)

lemma animate_fields:
  "planets (animate ctl now w) = planets w"
  "sun (animate ctl now w) = sun w"
  "scene (animate ctl now w) = scene w"
  "mountRef (animate ctl now w) = mountRef w"
  "renderer (animate ctl now w) = renderer w"
  "camera (animate ctl now w) = ctl (camera w)"
  "rafRequests (animate ctl now w) = rafRequests w + 1"
  "resizeListeners (animate ctl now w) = resizeListeners w"
  "framesRendered (animate ctl now w) = framesRendered w + 1"
  by (simp_all add: animate_def Let_def)

lemma animate_heap:
  "heap (animate ctl now w) =
     foldl (updatePlanet (now * 0.0005))
       ((heap w)[sun w := (heap w ! sun w)
           \<lparr>rotation := (rotation (heap w ! sun w))
              \<lparr>vec_y := vec_y (rotation (heap w ! sun w)) + 0.01\<rparr>\<rparr>])
       (planets w)"
  by (simp add: animate_def Let_def)

lemma animate_length: "length (heap (animate ctl now w)) = length (heap w)"
  by (simp add: animate_heap foldl_updatePlanet_length)

lemma animate_skeleton:
  "map kind (heap (animate ctl now w)) = map kind (heap w)"
  "map children (heap (animate ctl now w)) = map children (heap w)"
  "map parent (heap (animate ctl now w)) = map parent (heap w)"
  by (simp_all add: animate_heap foldl_updatePlanet_skeleton map_field_update)

lemma animate_planet:
  assumes "distinct (map mesh (planets w))" and "p \<in> set (planets w)"
    and "mesh p < length (heap w)" and "mesh p \<noteq> sun w"
  shows "heap (animate ctl now w) ! mesh p =
     (heap w ! mesh p)\<lparr>position := (position (heap w ! mesh p))
                     \<lparr>vec_x := distance p * cos (now * 0.0005 * orbitSpeed p),
                      vec_z := distance p * sin (now * 0.0005 * orbitSpeed p)\<rparr>,
                  rotation := (rotation (heap w ! mesh p))
                     \<lparr>vec_y := vec_y (rotation (heap w ! mesh p)) + rotationSpeed p\<rparr>\<rparr>"
  using assms
  by (simp add: animate_heap foldl_updatePlanet_self updatePlanet_self)

lemma animate_sun:
  assumes "sun w \<notin> set (map mesh (planets w))" and "sun w < length (heap w)"
  shows "heap (animate ctl now w) ! sun w =
     (heap w ! sun w)\<lparr>rotation := (rotation (heap w ! sun w))
              \<lparr>vec_y := vec_y (rotation (heap w ! sun w)) + 0.01\<rparr>\<rparr>"
  using assms by (simp add: animate_heap foldl_updatePlanet_other)

section \<open>Host events preserve the shape of the world\<close>

lemma frame_pending:
  "0 < rafRequests w \<Longrightarrow>
   frame ctl now w = animate ctl now (w\<lparr>rafRequests := rafRequests w - 1\<rparr>)"
  by (simp add: frame_def)

lemma onResize_fields:
  "heap (onResize win w) = heap w"
  "planets (onResize win w) = planets w"
  "sun (onResize win w) = sun w"
  "rafRequests (onResize win w) = rafRequests w"
  "mountRef (onResize win w) = mountRef w"
  by (simp_all add: onResize_def Let_def)

lemma cleanup_Inr:
  assumes "cleanup w = Inr w'"
  shows "\<exists>cs. mountRef w = Some cs \<and> Canvas \<in> set cs \<and> w' = w\<lparr>mountRef := Some (removeAll Canvas cs)\<rparr>"
  using assms
  by (auto simp: cleanup_def removeChild_def split: option.splits sum.splits if_splits)

lemma cleanup_fields:
  assumes "cleanup w = Inr w'"
  shows "heap w' = heap w" "planets w' = planets w" "sun w' = sun w"
    "rafRequests w' = rafRequests w" "camera w' = camera w" "renderer w' = renderer w"
  using cleanup_Inr [OF assms] by auto

lemma step_fields:
  "planets (step w e) = planets w"
  "sun (step w e) = sun w"
  "length (heap (step w e)) = length (heap w)"
  "map kind (heap (step w e)) = map kind (heap w)"
  "map children (heap (step w e)) = map children (heap w)"
  "map parent (heap (step w e)) = map parent (heap w)"
  by (cases e; auto simp: frame_def animate_fields animate_length animate_skeleton onResize_fields
        dest!: cleanup_Inr split: sum.splits)+

lemma step_wellFormed: "wellFormed w \<Longrightarrow> wellFormed (step w e)"
  by (cases e)
    (auto simp: wellFormed_def frame_def animate_fields animate_length onResize_fields
      dest!: cleanup_Inr split: sum.splits)

lemma frame_planet:
  assumes "wellFormed w" and "p \<in> set (planets w)"
  shows "heap (frame ctl now w) ! mesh p =
     (heap w ! mesh p)\<lparr>position := (position (heap w ! mesh p))
                     \<lparr>vec_x := distance p * cos (now * 0.0005 * orbitSpeed p),
                      vec_z := distance p * sin (now * 0.0005 * orbitSpeed p)\<rparr>,
                  rotation := (rotation (heap w ! mesh p))
                     \<lparr>vec_y := vec_y (rotation (heap w ! mesh p)) + rotationSpeed p\<rparr>\<rparr>"
proof -
  let ?w = "w\<lparr>rafRequests := rafRequests w - 1\<rparr>"
  from assms have "distinct (map mesh (planets ?w))" "p \<in> set (planets ?w)"
    "mesh p < length (heap ?w)" "mesh p \<noteq> sun ?w"
    by (auto simp: wellFormed_def list_all_iff)
  from animate_planet [OF this, of ctl now] assms(1) show ?thesis
    by (simp add: frame_pending wellFormed_def)
qed

lemma step_onPlane:
  assumes "wellFormed w" and "onPlane w"
  shows "onPlane (step w e)"
proof (cases e)
  case (Frame ctl now)
  with assms show ?thesis
    by (auto simp: onPlane_def list_all_iff frame_planet step_fields [of w e, simplified Frame step.simps])
next
  case (Resize win)
  with assms show ?thesis by (simp add: onPlane_def onResize_fields)
next
  case Unmount
  with assms show ?thesis
    by (auto simp: onPlane_def dest!: cleanup_Inr split: sum.splits)
qed

lemma step_selfRotationAngle:
  assumes "wellFormed w" and "p \<in> set (planets w)"
  shows "selfRotationAngle (step w e) p =
           selfRotationAngle w p + (if isFrame e then rotationSpeed p else 0)"
proof (cases e)
  case (Frame ctl now)
  with assms show ?thesis by (simp add: selfRotationAngle_def frame_planet)
next
  case (Resize win)
  then show ?thesis by (simp add: selfRotationAngle_def onResize_fields)
next
  case Unmount
  then show ?thesis
    by (auto simp: selfRotationAngle_def dest!: cleanup_Inr split: sum.splits)
qed

lemma run_fields:
  "planets (run w evs) = planets w"
  "sun (run w evs) = sun w"
  "length (heap (run w evs)) = length (heap w)"
  "map kind (heap (run w evs)) = map kind (heap w)"
  "map children (heap (run w evs)) = map children (heap w)"
  "map parent (heap (run w evs)) = map parent (heap w)"
  unfolding run_def by (induction evs arbitrary: w; simp add: step_fields)+

lemma run_wellFormed: "wellFormed w \<Longrightarrow> wellFormed (run w evs)"
  unfolding run_def by (induction evs arbitrary: w) (simp_all add: step_wellFormed)

lemma run_onPlane: "wellFormed w \<Longrightarrow> onPlane w \<Longrightarrow> onPlane (run w evs)"
  unfolding run_def by (induction evs arbitrary: w) (simp_all add: step_wellFormed step_onPlane)

lemma run_selfRotationAngle:
  assumes "wellFormed w" and "p \<in> set (planets w)"
  shows "selfRotationAngle (run w evs) p = selfRotationAngle w p + real (frames evs) * rotationSpeed p"
  using assms unfolding run_def frames_def
proof (induction evs arbitrary: w)
  case Nil
  then show ?case by simp
next
  case (Cons e es)
  from Cons.prems have "wellFormed (step w e)" "p \<in> set (planets (step w e))"
    by (simp_all add: step_wellFormed step_fields)
  from Cons.IH [OF this] Cons.prems show ?case
    by (simp add: step_selfRotationAngle algebra_simps)
qed

section \<open>The mounted world\<close>

lemma mountWith_Inr:
  assumes "mountWith names ctl win now ref = Inr w"
  obtains cs h sn ps w0 where "ref = Some cs" and "buildScene names = Inr (h, sn, ps)"
    and "heap w0 = h" and "sun w0 = sn" and "planets w0 = ps" and "rafRequests w0 = 0"
    and "scene w0 = 0" and "mountRef w0 = Some (appendChild Canvas cs)"
    and "camera w0 = \<lparr>fov = 75, aspect = innerWidth win / innerHeight win, near = 0.1,
                        far = 1000, cam_position = vec 0 50 150,
                        projection_aspect = innerWidth win / innerHeight win\<rparr>"
    and "renderer w0 = \<lparr>width = innerWidth win, height = innerHeight win,
                          pixelRatio = devicePixelRatio win\<rparr>"
    and "w = (animate ctl now w0)\<lparr>resizeListeners := 1\<rparr>"
proof -
  from assms obtain cs where ref: "ref = Some cs"
    by (cases ref) (simp_all add: mountWith_def Let_def)
  from assms ref obtain h sn ps where b: "buildScene names = Inr (h, sn, ps)"
    by (cases "buildScene names") (auto simp: mountWith_def Let_def)
  let ?w0 = "\<lparr>heap = h, scene = 0, sun = sn, planets = ps,
      camera = \<lparr>fov = 75, aspect = innerWidth win / innerHeight win, near = 0.1,
                        far = 1000, cam_position = vec 0 50 150,
                        projection_aspect = innerWidth win / innerHeight win\<rparr>,
      renderer = \<lparr>width = innerWidth win, height = innerHeight win,
                          pixelRatio = devicePixelRatio win\<rparr>,
      mountRef = Some (appendChild Canvas cs),
      rafRequests = 0, resizeListeners = 0, framesRendered = 0\<rparr>"
  from assms ref b have "w = (animate ctl now ?w0)\<lparr>resizeListeners := 1\<rparr>"
    by (simp add: mountWith_def Let_def animate_fields)
  with ref b show ?thesis by (intro that [of cs h sn ps ?w0]) simp_all
qed

lemma mountWith_succeeds:
  "buildScene names = Inr (h, sn, ps) \<Longrightarrow> \<exists>w. mountWith names ctl win now (Some cs) = Inr w"
  by (simp add: mountWith_def Let_def)

lemma sceneFacts_planets:
  assumes "sceneFacts names h ps"
  shows "distinct (map mesh ps)" and "length ps = 8" and "3 < length h"
    and "\<And>p. p \<in> set ps \<Longrightarrow> mesh p < length h \<and> mesh p \<noteq> 3 \<and>
           position (h ! mesh p) = vec (distance p) 0 0 \<and> rotation (h ! mesh p) = vec 0 0 0"
proof -
  from assms have m: "map mesh ps = [4, 6, 8, 10, 12, 14, 16, 18]" and len: "28 \<le> length h"
    and pr: "list_all (\<lambda>p. position (h ! mesh p) = vec (distance p) 0 0 \<and>
                   rotation (h ! mesh p) = vec 0 0 0) ps"
    by (simp_all add: sceneFacts_def)
  from m show "distinct (map mesh ps)" by simp
  from m have "length (map mesh ps) = 8" by simp
  then show "length ps = 8" by simp
  from len show "3 < length h" by simp
  fix p assume p: "p \<in> set ps"
  then have "mesh p \<in> set (map mesh ps)" by simp
  with m have "mesh p \<in> {4, 6, 8, 10, 12, 14, 16, 18}" by simp
  with len pr p show "mesh p < length h \<and> mesh p \<noteq> 3 \<and>
           position (h ! mesh p) = vec (distance p) 0 0 \<and> rotation (h ! mesh p) = vec 0 0 0"
    by (auto simp: list_all_iff)
qed

lemma mounted:
  assumes mnt: "mountWith names ctl win now ref = Inr w"
    and build: "buildScene names = Inr (h, 3, ps)" and facts: "sceneFacts names h ps"
  shows "wellFormed w" and "onPlane w" and "planets w = ps" and "sun w = 3"
    and "rafRequests w = 1" and "length (heap w) = length h"
    and "map kind (heap w) = map kind h" and "map children (heap w) = map children h"
    and "map parent (heap w) = map parent h"
    and "\<And>p. p \<in> set ps \<Longrightarrow> selfRotationAngle w p = rotationSpeed p"
    and "\<And>p. p \<in> set ps \<Longrightarrow> planetPosition w p =
           vec (distance p * cos (now * 0.0005 * orbitSpeed p)) 0
               (distance p * sin (now * 0.0005 * orbitSpeed p))"
    and "\<exists>cs. ref = Some cs \<and> mountRef w = Some (appendChild Canvas cs)"
    and "scene w = 0"
proof -
  from mnt obtain cs h' sn' ps' w0 where ref: "ref = Some cs"
    and b': "buildScene names = Inr (h', sn', ps')"
    and w0: "heap w0 = h'" "sun w0 = sn'" "planets w0 = ps'" "rafRequests w0 = 0"
      "scene w0 = 0" "mountRef w0 = Some (appendChild Canvas cs)"
    and w: "w = (animate ctl now w0)\<lparr>resizeListeners := 1\<rparr>"
    by (rule mountWith_Inr)
  from b' build have eq: "h' = h" "sn' = 3" "ps' = ps" by simp_all
  note sf = sceneFacts_planets [OF facts]
  show ps: "planets w = ps" and sn: "sun w = 3" and "rafRequests w = 1" and "scene w = 0"
    using w w0 eq by (simp_all add: animate_fields)
  show len: "length (heap w) = length h" using w w0 eq by (simp add: animate_length)
  show "map kind (heap w) = map kind h" "map children (heap w) = map children h"
    "map parent (heap w) = map parent h"
    using w w0 eq by (simp_all add: animate_skeleton)
  show "\<exists>cs. ref = Some cs \<and> mountRef w = Some (appendChild Canvas cs)"
    using w w0 ref by (simp add: animate_fields)
  have upd: "heap w ! mesh p =
     (h ! mesh p)\<lparr>position := (position (h ! mesh p))
                     \<lparr>vec_x := distance p * cos (now * 0.0005 * orbitSpeed p),
                      vec_z := distance p * sin (now * 0.0005 * orbitSpeed p)\<rparr>,
                  rotation := (rotation (h ! mesh p))
                     \<lparr>vec_y := vec_y (rotation (h ! mesh p)) + rotationSpeed p\<rparr>\<rparr>"
    if "p \<in> set ps" for p
  proof -
    from that sf w0 eq have "distinct (map mesh (planets w0))" "p \<in> set (planets w0)"
      "mesh p < length (heap w0)" "mesh p \<noteq> sun w0"
      by simp_all
    from animate_planet [OF this, of ctl now] w w0 eq show ?thesis by simp
  qed
  show "selfRotationAngle w p = rotationSpeed p" if "p \<in> set ps" for p
    using upd [OF that] sf(4) [OF that] by (simp add: selfRotationAngle_def vec_def)
  show pos: "planetPosition w p =
           vec (distance p * cos (now * 0.0005 * orbitSpeed p)) 0
               (distance p * sin (now * 0.0005 * orbitSpeed p))" if "p \<in> set ps" for p
    using upd [OF that] sf(4) [OF that] by (simp add: planetPosition_def vec_def)
  show "wellFormed w"
    using ps sn len sf \<open>rafRequests w = 1\<close> by (auto simp: wellFormed_def list_all_iff)
  show "onPlane w"
    using ps pos by (auto simp: onPlane_def list_all_iff planetPosition_def vec_def)
qed

section \<open>The store after scene build\<close>

lemmas prim_defs = alloc_def add_def set_position_def set_rotation_x_def new_object_def

lemma addPlanet_step:
  "addPlanet names (sc # rest, ps) (i, t) =
     (sc\<lparr>children := children sc @ [Suc (length rest)]\<rparr> # rest @
        [\<lparr>kind = Mesh (SphereGeometry 2 32 32) (MeshStandardMaterial t),
          position = vec (planetDistances ! i) 0 0, rotation = vec 0 0 0,
          children = [Suc (Suc (length rest))], parent = Some 0\<rparr>,
         \<lparr>kind = SpriteText (nth_opt names i), position = vec 0 3 0, rotation = vec 0 0 0,
          children = [], parent = Some (Suc (length rest))\<rparr>],
      ps @ [\<lparr>mesh = Suc (length rest), distance = planetDistances ! i,
              rotationSpeed = 0.01 * (real i + 1), orbitSpeed = 0.02 / (real i + 1)\<rparr>])"
  by (simp add: addPlanet_def prim_defs Let_def nth_append list_update_append)

lemma addOrbit_step:
  "addOrbit (sc # rest) d =
     sc\<lparr>children := children sc @ [Suc (length rest)]\<rparr> # rest @
        [\<lparr>kind = LineLoop (BufferGeometry (orbitPositions d)) LineBasicMaterial,
          position = vec 0 0 0, rotation = (vec 0 0 0)\<lparr>vec_x := pi / 2\<rparr>,
          children = [], parent = Some 0\<rparr>]"
  by (simp add: addOrbit_def createOrbit_def prim_defs Let_def nth_append list_update_append)

lemma createSaturnRings_step:
  "createSaturnRings sz h = (length h, h @
        [\<lparr>kind = Mesh (RingGeometry (sz * 1.3) (sz * 1.5) 64)
                  (MeshBasicMaterial ''/assets/textures/saturn-ring.png''),
          position = vec 0 0 0, rotation = (vec 0 0 0)\<lparr>vec_x := pi / 2\<rparr>,
          children = [], parent = None\<rparr>])"
  by (simp add: createSaturnRings_def prim_defs Let_def)

lemma enumerate_planetTextures:
  "enumerate 0 planetTextures =
     [(0, planetTextures ! 0), (1, planetTextures ! 1), (2, planetTextures ! 2),
      (3, planetTextures ! 3), (4, planetTextures ! 4), (5, planetTextures ! 5),
      (6, planetTextures ! 6), (7, planetTextures ! 7)]"
  by (simp add: planetTextures_def enumerate_eq_zip)

lemmas build_simps = buildScene_def prim_defs addPlanet_step addOrbit_step createSaturnRings_step
  enumerate_planetTextures planetDistances_def

lemmas facts_simps = sceneFacts_def sceneObjects_def ringAttachments_def labelOf_def


lemma indexOf_from_range:
  "0 \<le> i \<Longrightarrow> indexOf_from i xs a = -1 \<or>
     (i \<le> indexOf_from i xs a \<and> indexOf_from i xs a < i + int (length xs))"
proof (induction xs arbitrary: i)
  case Nil
  then show ?case by simp
next
  case (Cons b bs)
  from Cons.IH [of "i + 1"] Cons.prems show ?case by auto
qed

lemma indexOf_from_absent: "0 \<le> i \<Longrightarrow> (indexOf_from i xs a = -1) = (a \<notin> set xs)"
proof (induction xs arbitrary: i)
  case Nil
  then show ?case by simp
next
  case (Cons b bs)
  from Cons.IH [of "i + 1"] Cons.prems show ?case by auto
qed

lemma indexOf_from_nth:
  "0 \<le> i \<Longrightarrow> indexOf_from i xs a \<noteq> -1 \<Longrightarrow> xs ! nat (indexOf_from i xs a - i) = a"
proof (induction xs arbitrary: i)
  case Nil
  then show ?case by simp
next
  case (Cons b bs)
  show ?case
  proof (cases "b = a")
    case True
    then show ?thesis by simp
  next
    case False
    with Cons.prems have ne: "indexOf_from (i + 1) bs a \<noteq> -1" by simp
    from indexOf_from_range [of "i + 1" bs a] ne Cons.prems
    have "i + 1 \<le> indexOf_from (i + 1) bs a" by auto
    then have "nat (indexOf_from (i + 1) bs a - i) = Suc (nat (indexOf_from (i + 1) bs a - (i + 1)))"
      by simp
    with Cons.IH [of "i + 1"] ne Cons.prems False show ?thesis by simp
  qed
qed

lemma indexOf_absent: "(indexOf xs a = -1) = (a \<notin> set xs)"
  by (simp add: indexOf_def indexOf_from_absent)

lemma indexOf_range: "indexOf xs a = -1 \<or> (0 \<le> indexOf xs a \<and> nat (indexOf xs a) < length xs)"
  using indexOf_from_range [of 0 xs a] by (auto simp: indexOf_def)

lemma indexOf_nth: "indexOf xs a \<noteq> -1 \<Longrightarrow> xs ! nat (indexOf xs a) = a"
  using indexOf_from_nth [of 0 xs a] by (simp add: indexOf_def)

lemma build_no_ring:
  "indexOf names ''Saturn'' = -1 \<Longrightarrow>
   (case buildScene names of Inl e \<Rightarrow> False | Inr (h, sn, ps) \<Rightarrow> sn = 3 \<and> sceneFacts names h ps)"
  by (simp add: build_simps facts_simps
      cong: let_weak_cong prod.case_cong_weak sum.case_cong_weak)

lemma build_ring:
  assumes "indexOf names ''Saturn'' = int k" and "k < 8"
  shows "case buildScene names of Inl e \<Rightarrow> False | Inr (h, sn, ps) \<Rightarrow> sn = 3 \<and> sceneFacts names h ps"
proof -
  let ?idx = "indexOf names ''Saturn''"
  have c0: "?idx = 0 \<Longrightarrow> ?thesis"
    by (simp add: build_simps facts_simps
        cong: let_weak_cong prod.case_cong_weak sum.case_cong_weak)
  have c1: "?idx = 1 \<Longrightarrow> ?thesis"
    by (simp add: build_simps facts_simps
        cong: let_weak_cong prod.case_cong_weak sum.case_cong_weak)
  have c2: "?idx = 2 \<Longrightarrow> ?thesis"
    by (simp add: build_simps facts_simps
        cong: let_weak_cong prod.case_cong_weak sum.case_cong_weak)
  have c3: "?idx = 3 \<Longrightarrow> ?thesis"
    by (simp add: build_simps facts_simps
        cong: let_weak_cong prod.case_cong_weak sum.case_cong_weak)
  have c4: "?idx = 4 \<Longrightarrow> ?thesis"
    by (simp add: build_simps facts_simps
        cong: let_weak_cong prod.case_cong_weak sum.case_cong_weak)
  have c5: "?idx = 5 \<Longrightarrow> ?thesis"
    by (simp add: build_simps facts_simps
        cong: let_weak_cong prod.case_cong_weak sum.case_cong_weak)
  have c6: "?idx = 6 \<Longrightarrow> ?thesis"
    by (simp add: build_simps facts_simps
        cong: let_weak_cong prod.case_cong_weak sum.case_cong_weak)
  have c7: "?idx = 7 \<Longrightarrow> ?thesis"
    by (simp add: build_simps facts_simps
        cong: let_weak_cong prod.case_cong_weak sum.case_cong_weak)
  from assms have "?idx = 0 \<or> ?idx = 1 \<or> ?idx = 2 \<or> ?idx = 3 \<or> ?idx = 4 \<or> ?idx = 5 \<or> ?idx = 6 \<or> ?idx = 7"
    by auto
  with c0 c1 c2 c3 c4 c5 c6 c7 show ?thesis by blast
qed

lemma build_facts:
  assumes "length names = length planetTextures"
  shows "\<exists>h ps. buildScene names = Inr (h, 3, ps) \<and> sceneFacts names h ps"
proof -
  have len: "length names = 8" using assms by (simp add: planetTextures_def)
  have "case buildScene names of Inl e \<Rightarrow> False | Inr (h, sn, ps) \<Rightarrow> sn = 3 \<and> sceneFacts names h ps"
  proof (cases "indexOf names ''Saturn'' = -1")
    case True
    then show ?thesis by (rule build_no_ring)
  next
    case False
    with indexOf_range [of names "''Saturn''"] len
    have "indexOf names ''Saturn'' = int (nat (indexOf names ''Saturn''))" "nat (indexOf names ''Saturn'') < 8"
      by auto
    then show ?thesis by (rule build_ring)
  qed
  then show ?thesis by (auto split: sum.splits)
qed

section \<open>The mounted component\<close>

lemma length_planetNames: "length planetNames = length planetTextures"
  by (simp add: planetNames_def planetTextures_def)

lemma mount_build:
  obtains h ps where "buildScene planetNames = Inr (h, 3, ps)" and "sceneFacts planetNames h ps"
  using build_facts [OF length_planetNames] by blast

lemma mount_succeeds: "\<exists>w. mount ctl win now (Some cs) = Inr w"
proof -
  obtain h ps where "buildScene planetNames = Inr (h, 3, ps)" by (rule mount_build)
  then show ?thesis unfolding mount_def by (rule mountWith_succeeds)
qed

lemma mountedAt: "mount id exampleWindow now (Some []) = Inr (mountedAt now)"
  using mount_succeeds [of id exampleWindow now "[]"] by (auto simp: mountedAt_def)

lemma sceneFacts_registry:
  assumes facts: "sceneFacts names h ps" and i: "i < 8"
  shows "mesh (ps ! i) = 4 + 2 * i"
    and "distance (ps ! i) = [20, 30, 40, 50, 60, 70, 80, 100] ! i"
    and "rotationSpeed (ps ! i) = 0.01 * (real i + 1)"
    and "orbitSpeed (ps ! i) = 0.02 / (real i + 1)"
    and "kind (h ! mesh (ps ! i)) =
           Mesh (SphereGeometry 2 32 32) (MeshStandardMaterial (planetTextures ! i))"
    and "labelOf h (mesh (ps ! i)) = nth_opt names i"
    and "children (h ! mesh (ps ! i)) =
           (if indexOf names ''Saturn'' = int i then [5 + 2 * i, 20] else [5 + 2 * i])"
    and "ps ! i \<in> set ps"
proof -
  have len: "length ps = 8" using facts by (rule sceneFacts_planets)
  have nth: "f (ps ! i) = L ! i" if "map f ps = L" for f :: "planet \<Rightarrow> 'b" and L
    using that i len by (metis nth_map)
  from i have cases: "i = 0 \<or> i = 1 \<or> i = 2 \<or> i = 3 \<or> i = 4 \<or> i = 5 \<or> i = 6 \<or> i = 7"
    by arith
  from facts have "map mesh ps = [4, 6, 8, 10, 12, 14, 16, 18]" by (simp add: sceneFacts_def)
  from nth [OF this] cases show "mesh (ps ! i) = 4 + 2 * i" by auto
  from facts have "map distance ps = [20, 30, 40, 50, 60, 70, 80, 100]"
    by (simp add: sceneFacts_def)
  from nth [OF this] show "distance (ps ! i) = [20, 30, 40, 50, 60, 70, 80, 100] ! i" .
  from facts have "map rotationSpeed ps = [0.01, 0.02, 0.03, 0.04, 0.05, 0.06, 0.07, 0.08]"
    by (simp add: sceneFacts_def)
  from nth [OF this] cases show "rotationSpeed (ps ! i) = 0.01 * (real i + 1)" by auto
  from facts have "map orbitSpeed ps =
      [0.02, 0.02 / 2, 0.02 / 3, 0.02 / 4, 0.02 / 5, 0.02 / 6, 0.02 / 7, 0.02 / 8]"
    by (simp add: sceneFacts_def)
  from nth [OF this] cases show "orbitSpeed (ps ! i) = 0.02 / (real i + 1)" by auto
  from facts have "map (\<lambda>p. kind (h ! mesh p)) ps =
       map (\<lambda>i. Mesh (SphereGeometry 2 32 32) (MeshStandardMaterial (planetTextures ! i)))
         [0, 1, 2, 3, 4, 5, 6, 7]"
    by (simp add: sceneFacts_def)
  from nth [OF this] cases show "kind (h ! mesh (ps ! i)) =
           Mesh (SphereGeometry 2 32 32) (MeshStandardMaterial (planetTextures ! i))"
    by auto
  from facts have "map (\<lambda>p. labelOf h (mesh p)) ps = map (nth_opt names) [0, 1, 2, 3, 4, 5, 6, 7]"
    by (simp add: sceneFacts_def)
  from nth [OF this] cases show "labelOf h (mesh (ps ! i)) = nth_opt names i" by auto
  from facts have "map (\<lambda>p. children (h ! mesh p)) ps =
       map (\<lambda>i. if indexOf names ''Saturn'' = int i then [5 + 2 * i, 20] else [5 + 2 * i])
         [0, 1, 2, 3, 4, 5, 6, 7]"
    by (simp add: sceneFacts_def)
  from nth [OF this] cases show "children (h ! mesh (ps ! i)) =
           (if indexOf names ''Saturn'' = int i then [5 + 2 * i, 20] else [5 + 2 * i])"
    by auto
  from i len show "ps ! i \<in> set ps" by simp
qed

lemma mount_registry:
  assumes "mount ctl win now ref = Inr w" and "i < 8"
  shows "planets w ! i \<in> set (planets w)"
    and "distance (planets w ! i) = planetDistances ! i"
    and "rotationSpeed (planets w ! i) = 0.01 * (real i + 1)"
    and "orbitSpeed (planets w ! i) = 0.02 / (real i + 1)"
    and "length (planets w) = 8"
proof -
  obtain h ps where b: "buildScene planetNames = Inr (h, 3, ps)"
    and f: "sceneFacts planetNames h ps" by (rule mount_build)
  from assms(1) have ps: "planets w = ps" unfolding mount_def by (rule mounted(3) [OF _ b f])
  from sceneFacts_registry [OF f assms(2)] ps
  show "planets w ! i \<in> set (planets w)"
    and "distance (planets w ! i) = planetDistances ! i"
    and "rotationSpeed (planets w ! i) = 0.01 * (real i + 1)"
    and "orbitSpeed (planets w ! i) = 0.02 / (real i + 1)"
    by (simp_all add: planetDistances_def)
  from sceneFacts_planets(2) [OF f] ps show "length (planets w) = 8" by simp
qed

lemma mount_invariants:
  assumes "mount ctl win now ref = Inr w"
  shows "wellFormed w" and "onPlane w"
    and "\<And>p. p \<in> set (planets w) \<Longrightarrow> selfRotationAngle w p = rotationSpeed p"
    and "\<And>p. p \<in> set (planets w) \<Longrightarrow> planetPosition w p =
           vec (distance p * cos (now * 0.0005 * orbitSpeed p)) 0
               (distance p * sin (now * 0.0005 * orbitSpeed p))"
    and "\<exists>cs. ref = Some cs \<and> mountRef w = Some (appendChild Canvas cs)"
    and "\<And>p. p \<in> set (planets w) \<Longrightarrow> 0 < rotationSpeed p \<and> 0 < orbitSpeed p"
proof -
  obtain h ps where b: "buildScene planetNames = Inr (h, 3, ps)"
    and f: "sceneFacts planetNames h ps" by (rule mount_build)
  note m = mounted [OF assms [unfolded mount_def] b f]
  show "wellFormed w" and "onPlane w" by (rule m)+
  show "selfRotationAngle w p = rotationSpeed p" if "p \<in> set (planets w)" for p
    using that m(3) m(10) by simp
  show "planetPosition w p =
           vec (distance p * cos (now * 0.0005 * orbitSpeed p)) 0
               (distance p * sin (now * 0.0005 * orbitSpeed p))" if "p \<in> set (planets w)" for p
    using that m(3) m(11) by simp
  show "\<exists>cs. ref = Some cs \<and> mountRef w = Some (appendChild Canvas cs)" by (rule m)
  show "0 < rotationSpeed p \<and> 0 < orbitSpeed p" if "p \<in> set (planets w)" for p
  proof -
    from that m(3) obtain i where i: "i < length ps" and p: "p = ps ! i"
      by (auto simp: in_set_conv_nth)
    from i sceneFacts_planets(2) [OF f] have "i < 8" by simp
    from sceneFacts_registry(3,4) [OF f this] p show ?thesis by simp
  qed
qed

lemma vec_update_xz: "v\<lparr>vec_x := a, vec_z := b\<rparr> = vec a (vec_y v) b"
  by (cases v) (simp add: vec_def)

lemma frame_position:
  assumes "wellFormed w" and "p \<in> set (planets w)"
  shows "planetPosition (step w (Frame ctl now)) p =
           vec (distance p * cos (now * 0.0005 * orbitSpeed p))
               (vec_y (planetPosition w p))
               (distance p * sin (now * 0.0005 * orbitSpeed p))"
  using frame_planet [OF assms, of ctl now]
  by (simp add: planetPosition_def vec_update_xz)

lemma onPlane_y: "onPlane w \<Longrightarrow> p \<in> set (planets w) \<Longrightarrow> vec_y (planetPosition w p) = 0"
  by (simp add: onPlane_def planetPosition_def list_all_iff)

lemma run_invariants:
  assumes "mount ctl win now ref = Inr w0"
  shows "wellFormed (run w0 evs)" and "onPlane (run w0 evs)"
    and "planets (run w0 evs) = planets w0"
  using mount_invariants(1,2) [OF assms]
  by (simp_all add: run_wellFormed run_onPlane run_fields)

lemma cos_one_less: "cos (1::real) < 1"
  using cos_monotone_0_pi [of 0 1] pi_ge_two by simp

lemma frames_append: "frames (evs @ evs') = frames evs + frames evs'"
  by (simp add: frames_def)

lemma run_append: "run w (evs @ evs') = run (run w evs) evs'"
  by (simp add: run_def)

lemma mount_camera:
  assumes "mount ctl win now ref = Inr w"
  shows "camera w = ctl \<lparr>fov = 75, aspect = innerWidth win / innerHeight win, near = 0.1,
                        far = 1000, cam_position = vec 0 50 150,
                        projection_aspect = innerWidth win / innerHeight win\<rparr>"
    and "renderer w = \<lparr>width = innerWidth win, height = innerHeight win,
                          pixelRatio = devicePixelRatio win\<rparr>"
proof -
  from assms [unfolded mount_def] obtain w0 where
    c: "camera w0 = \<lparr>fov = 75, aspect = innerWidth win / innerHeight win, near = 0.1,
                        far = 1000, cam_position = vec 0 50 150,
                        projection_aspect = innerWidth win / innerHeight win\<rparr>"
    and r: "renderer w0 = \<lparr>width = innerWidth win, height = innerHeight win,
                          pixelRatio = devicePixelRatio win\<rparr>"
    and w: "w = (animate ctl now w0)\<lparr>resizeListeners := 1\<rparr>"
    by (rule mountWith_Inr)
  from w c show "camera w = ctl \<lparr>fov = 75, aspect = innerWidth win / innerHeight win, near = 0.1,
                        far = 1000, cam_position = vec 0 50 150,
                        projection_aspect = innerWidth win / innerHeight win\<rparr>"
    by (simp add: animate_fields)
  from w r show "renderer w = \<lparr>width = innerWidth win, height = innerHeight win,
                          pixelRatio = devicePixelRatio win\<rparr>"
    by (simp add: animate_fields)
qed

lemma cleanup_attached:
  "mountRef w = Some cs \<Longrightarrow> Canvas \<in> set cs \<Longrightarrow>
   cleanup w = Inr (w\<lparr>mountRef := Some (removeAll Canvas cs)\<rparr>)"
  by (simp add: cleanup_def removeChild_def)

lemma cleanup_detached:
  "mountRef w = Some cs \<Longrightarrow> Canvas \<notin> set cs \<Longrightarrow> cleanup w = Inl NotFoundError"
  by (simp add: cleanup_def removeChild_def)

lemma step_mountRef: "e \<noteq> Unmount \<Longrightarrow> mountRef (step w e) = mountRef w"
  by (cases e) (simp_all add: frame_def animate_fields onResize_fields)

lemma run_mountRef: "Unmount \<notin> set evs \<Longrightarrow> mountRef (run w evs) = mountRef w"
  unfolding run_def by (induction evs arbitrary: w) (auto simp: step_mountRef)

lemma step_detached:
  assumes "mountRef w = Some cs" and "Canvas \<notin> set cs"
  shows "mountRef (step w e) = Some cs"
proof (cases "e = Unmount")
  case True
  with cleanup_detached [OF assms] assms(1) show ?thesis by simp
next
  case False
  with assms(1) show ?thesis by (simp add: step_mountRef)
qed

lemma run_detached:
  "mountRef w = Some cs \<Longrightarrow> Canvas \<notin> set cs \<Longrightarrow> mountRef (run w evs) = Some cs"
  unfolding run_def by (induction evs arbitrary: w) (simp_all add: step_detached)

lemma frame_heap_mountRef: "heap (frame ctl now (w\<lparr>mountRef := r\<rparr>)) = heap (frame ctl now w)"
  by (simp add: frame_def animate_heap)

lemma mountWith_scene:
  assumes "length names = length planetTextures" and "mountWith names ctl win now ref = Inr w"
  obtains h where "sceneFacts names h (planets w)" and "length (heap w) = length h"
    and "map kind (heap w) = map kind h" and "map children (heap w) = map children h"
    and "map parent (heap w) = map parent h" and "scene w = 0"
proof -
  from build_facts [OF assms(1)] obtain h ps where b: "buildScene names = Inr (h, 3, ps)"
    and f: "sceneFacts names h ps" by blast
  note m = mounted [OF assms(2) b f]
  from f m(3) have "sceneFacts names h (planets w)" by simp
  with m show ?thesis by (intro that [of h])
qed

lemma skeleton_nth:
  assumes "map f h' = map f h" and "i < length h"
  shows "f (h' ! i) = f (h ! i)"
proof -
  from assms(1) have "length h' = length h" by (rule map_eq_imp_length_eq)
  with assms(2) have "f (h' ! i) = map f h' ! i" by simp
  also have "\<dots> = map f h ! i" using assms(1) by simp
  also have "\<dots> = f (h ! i)" using assms(2) by simp
  finally show ?thesis .
qed

lemma observers_skeleton:
  assumes "map kind h' = map kind h" and "map children h' = map children h"
    and "map parent h' = map parent h"
  shows "sceneObjects h' = sceneObjects h" and "ringAttachments h' = ringAttachments h"
    and "ringParents h' = ringParents h" and "labelOf h' m = labelOf h m"
proof -
  from assms(1) have len: "length h' = length h" by (rule map_eq_imp_length_eq)
  have k: "map (\<lambda>ob. isRing (kind ob)) h' = map (\<lambda>ob. isRing (kind ob)) h"
    using arg_cong [OF assms(1), of "map isRing"] by (simp add: comp_def)
  show so: "sceneObjects h' = sceneObjects h" by (simp add: sceneObjects_def len assms(2))
  show ra: "ringAttachments h' = ringAttachments h" by (simp add: ringAttachments_def so k)
  show "ringParents h' = ringParents h" by (simp add: ringParents_def ra assms(3))
  show "labelOf h' m = labelOf h m" unfolding labelOf_def assms(1,2) by (rule refl)
qed

section \<open>Claim C1: where a tick places a body\<close>

text \<open>
  Claim C1 reads the time fed to the orbit formula as elapsed time since the loop started,
  so that the first tick (elapsed 0) puts Earth at \<open>(40, 0, 0)\<close>. The loop starts inside
  the effect, with the first call of \<open>animate\<close>. Mounted when \<open>Date.now()\<close> is 300000,
  that call has \<open>time = 150\<close> and Earth's angle is \<open>150 * 0.02 / 3 = 1\<close> radian: the
  position is \<open>(40 cos 1, 0, 40 sin 1)\<close>, not \<open>(40, 0, 0)\<close>.
\<close>

theorem C1_counterexample:
  "planetPosition (mountedAt 300000) (planets (mountedAt 300000) ! 2)
     = vec (40 * cos 1) 0 (40 * sin 1) \<and>
   planetPosition (mountedAt 300000) (planets (mountedAt 300000) ! 2) \<noteq> vec 40 0 0"
proof -
  let ?w = "mountedAt 300000"
  have m: "mount id exampleWindow 300000 (Some []) = Inr ?w" by (rule mountedAt)
  note r = mount_registry [OF m, of 2]
  have "planetPosition ?w (planets ?w ! 2) = vec (40 * cos 1) 0 (40 * sin 1)"
    using mount_invariants(4) [OF m r(1)] r(2,4) by (simp add: planetDistances_def)
  moreover have "vec (40 * cos 1) 0 (40 * sin 1) \<noteq> vec 40 0 0"
    using cos_one_less by (simp add: vec_def)
  ultimately show ?thesis by simp
qed

text \<open>
  Claim C1, amended: for every orbiting body and every run of \<open>animate\<close> (the one inside
  the effect and every later frame, whatever happened in between), the body is placed at
  \<open>(distance * cos (t * orbitSpeed), 0, distance * sin (t * orbitSpeed))\<close> where
  \<open>t = Date.now() * 0.0005\<close> is wall-clock time, not time since the loop started. With the
  Earth entry (distance 40, orbitSpeed 0.02 / 3) a frame at \<open>Date.now() = 0\<close> yields
  \<open>(40, 0, 0)\<close>.
\<close>

theorem C1_position_from_wall_clock:
  assumes "mount ctl0 win now0 ref = Inr w0" and "p \<in> set (planets w0)"
  shows "planetPosition w0 p =
           vec (distance p * cos (now0 * 0.0005 * orbitSpeed p)) 0
               (distance p * sin (now0 * 0.0005 * orbitSpeed p)) \<and>
         planetPosition (step (run w0 evs) (Frame ctl now)) p =
           vec (distance p * cos (now * 0.0005 * orbitSpeed p)) 0
               (distance p * sin (now * 0.0005 * orbitSpeed p)) \<and>
         distance (planets w0 ! 2) = 40 \<and> orbitSpeed (planets w0 ! 2) = 0.02 / 3 \<and>
         planetPosition (step (run w0 evs) (Frame ctl 0)) (planets w0 ! 2) = vec 40 0 0"
proof -
  note inv = run_invariants [OF assms(1), of evs]
  note r = mount_registry [OF assms(1), of 2]
  have pos: "planetPosition (step (run w0 evs) (Frame ctl t)) q =
           vec (distance q * cos (t * 0.0005 * orbitSpeed q)) 0
               (distance q * sin (t * 0.0005 * orbitSpeed q))"
    if "q \<in> set (planets w0)" for q t
    using that inv frame_position [of "run w0 evs" q ctl t] onPlane_y [of "run w0 evs" q]
    by simp
  have "planetPosition w0 p =
           vec (distance p * cos (now0 * 0.0005 * orbitSpeed p)) 0
               (distance p * sin (now0 * 0.0005 * orbitSpeed p))"
    using assms by (rule mount_invariants(4))
  moreover have "distance (planets w0 ! 2) = 40" "orbitSpeed (planets w0 ! 2) = 0.02 / 3"
    using r(2,4) by (simp_all add: planetDistances_def)
  moreover from this have "planetPosition (step (run w0 evs) (Frame ctl 0)) (planets w0 ! 2) = vec 40 0 0"
    using pos [OF r(1), of 0] by simp
  ultimately show ?thesis using pos [OF assms(2), of now] by simp
qed

theorem C1_position_from_wall_clock_witness:
  "mount id exampleWindow 300000 (Some []) = Inr (mountedAt 300000) \<and>
   planets (mountedAt 300000) ! 2 \<in> set (planets (mountedAt 300000)) \<and>
   planetPosition (step (run (mountedAt 300000) [Frame id 300016, Resize exampleWindow])
       (Frame id 600000)) (planets (mountedAt 300000) ! 2)
     = vec (40 * cos 2) 0 (40 * sin 2) \<and>
   planetPosition (step (run (mountedAt 300000) [Frame id 300016, Resize exampleWindow])
       (Frame id 0)) (planets (mountedAt 300000) ! 2) = vec 40 0 0"
proof -
  have m: "mount id exampleWindow 300000 (Some []) = Inr (mountedAt 300000)" by (rule mountedAt)
  have p: "planets (mountedAt 300000) ! 2 \<in> set (planets (mountedAt 300000))"
    using mount_registry(1) [OF m, of 2] by simp
  note t = C1_position_from_wall_clock [OF m p, of "[Frame id 300016, Resize exampleWindow]" id 600000]
  from t have d: "distance (planets (mountedAt 300000) ! 2) = 40"
    and o: "orbitSpeed (planets (mountedAt 300000) ! 2) = 0.02 / 3"
    by blast+
  from t have a: "planetPosition (step (run (mountedAt 300000) [Frame id 300016, Resize exampleWindow])
       (Frame id 600000)) (planets (mountedAt 300000) ! 2)
     = vec (40 * cos (600000 * 0.0005 * (0.02 / 3))) 0 (40 * sin (600000 * 0.0005 * (0.02 / 3)))"
    unfolding d o by blast
  from t have z: "planetPosition (step (run (mountedAt 300000) [Frame id 300016, Resize exampleWindow])
       (Frame id 0)) (planets (mountedAt 300000) ! 2) = vec 40 0 0"
    by blast
  show ?thesis unfolding a z using m p by simp
qed

section \<open>Claim C2: the self-rotation angle\<close>

text \<open>
  Claim C2 makes the self-rotation angle \<open>elapsed * rotationRate\<close>, 3.0 for Earth at
  elapsed 100. The loop adds \<open>rotationSpeed\<close> once per run of \<open>animate\<close>, so the angle
  counts runs, not time: mounted at \<open>Date.now() = 0\<close> and ticked once at
  \<open>Date.now() = 200000\<close> (\<open>time = 100\<close>), Earth has turned by \<open>2 * 0.03 = 0.06\<close>.
\<close>

theorem C2_counterexample:
  "selfRotationAngle (step (mountedAt 0) (Frame id 200000)) (planets (mountedAt 0) ! 2) = 0.06 \<and>
   rotationSpeed (planets (mountedAt 0) ! 2) = 0.03 \<and>
   selfRotationAngle (step (mountedAt 0) (Frame id 200000)) (planets (mountedAt 0) ! 2)
     \<noteq> (200000 * 0.0005) * rotationSpeed (planets (mountedAt 0) ! 2)"
proof -
  let ?w = "mountedAt 0"
  have m: "mount id exampleWindow 0 (Some []) = Inr ?w" by (rule mountedAt)
  note r = mount_registry [OF m, of 2]
  have "selfRotationAngle (step ?w (Frame id 200000)) (planets ?w ! 2)
          = selfRotationAngle ?w (planets ?w ! 2) + rotationSpeed (planets ?w ! 2)"
    using step_selfRotationAngle [OF mount_invariants(1) [OF m] r(1), of "Frame id 200000"]
    by simp
  with mount_invariants(3) [OF m r(1)] r(3) show ?thesis by simp
qed

text \<open>
  Claim C2, amended: the self-rotation angle of a body equals the number of runs of
  \<open>animate\<close> so far (the one inside the effect plus one per frame) times its
  \<open>rotationSpeed\<close>, whatever the times of the frames; it never decreases along a run
  (every rate of the registry is positive). With the Earth entry (rotationSpeed 0.03) the
  angle is 3.0 after 100 runs, that is after 99 frames.
\<close>

theorem C2_rotation_counts_frames:
  assumes "mount ctl0 win now0 ref = Inr w0" and "p \<in> set (planets w0)"
  shows "selfRotationAngle (run w0 evs) p = (1 + real (frames evs)) * rotationSpeed p \<and>
         selfRotationAngle (run w0 evs) p \<le> selfRotationAngle (run w0 (evs @ evs')) p \<and>
         rotationSpeed (planets w0 ! 2) = 0.03 \<and>
         (frames evs = 99 \<longrightarrow> selfRotationAngle (run w0 evs) (planets w0 ! 2) = 3)"
proof -
  note wf = mount_invariants(1) [OF assms(1)]
  note r = mount_registry [OF assms(1), of 2]
  have angle: "selfRotationAngle (run w0 es) q = (1 + real (frames es)) * rotationSpeed q"
    if "q \<in> set (planets w0)" for q es
    using run_selfRotationAngle [OF wf that, of es] mount_invariants(3) [OF assms(1) that]
    by (simp add: algebra_simps)
  have "0 < rotationSpeed p" using mount_invariants(6) [OF assms] by simp
  then have "selfRotationAngle (run w0 evs) p \<le> selfRotationAngle (run w0 (evs @ evs')) p"
    by (simp add: angle [OF assms(2)] frames_append)
  moreover have "rotationSpeed (planets w0 ! 2) = 0.03" using r(3) by simp
  moreover from this have "frames evs = 99 \<longrightarrow> selfRotationAngle (run w0 evs) (planets w0 ! 2) = 3"
    by (simp add: angle [OF r(1)])
  ultimately show ?thesis using angle [OF assms(2), of evs] by simp
qed

theorem C2_rotation_counts_frames_witness:
  "mount id exampleWindow 0 (Some []) = Inr (mountedAt 0) \<and>
   planets (mountedAt 0) ! 2 \<in> set (planets (mountedAt 0)) \<and>
   frames (replicate 99 (Frame id 200000)) = 99 \<and>
   selfRotationAngle (run (mountedAt 0) (replicate 99 (Frame id 200000))) (planets (mountedAt 0) ! 2) = 3"
proof -
  have m: "mount id exampleWindow 0 (Some []) = Inr (mountedAt 0)" by (rule mountedAt)
  have p: "planets (mountedAt 0) ! 2 \<in> set (planets (mountedAt 0))"
    using mount_registry(1) [OF m, of 2] by simp
  have f: "frames (replicate 99 (Frame id 200000)) = 99" by (simp add: frames_def)
  from C2_rotation_counts_frames [OF m p, of "replicate 99 (Frame id 200000)" "[]"] f
  show ?thesis using m p by simp
qed

section \<open>Claim C3: ticks after unmount\<close>

text \<open>
  Claim C3 says that no tick after unmount writes to the scene graph. The cleanup only
  detaches the canvas: mounted at \<open>Date.now() = 0\<close> and unmounted at once (the cleanup
  returns, the container is left empty), the pending frame still runs and turns Earth
  from 0.03 to 0.06.
\<close>

theorem C3_counterexample:
  "cleanup (mountedAt 0) = Inr (step (mountedAt 0) Unmount) \<and>
   mountRef (step (mountedAt 0) Unmount) = Some [] \<and>
   selfRotationAngle (step (mountedAt 0) Unmount) (planets (mountedAt 0) ! 2) = 0.03 \<and>
   selfRotationAngle (step (step (mountedAt 0) Unmount) (Frame id 16)) (planets (mountedAt 0) ! 2)
     = 0.06"
proof -
  let ?w = "mountedAt 0"
  have m: "mount id exampleWindow 0 (Some []) = Inr ?w" by (rule mountedAt)
  note r = mount_registry [OF m, of 2]
  from mount_invariants(5) [OF m] have ref: "mountRef ?w = Some [Canvas]"
    by (simp add: appendChild_def)
  then have c: "cleanup ?w = Inr (?w\<lparr>mountRef := Some []\<rparr>)"
    using cleanup_attached [of ?w "[Canvas]"] by simp
  then have u: "step ?w Unmount = ?w\<lparr>mountRef := Some []\<rparr>" by simp
  have wf: "wellFormed (step ?w Unmount)" using mount_invariants(1) [OF m] by (rule step_wellFormed)
  have a: "selfRotationAngle (step ?w Unmount) (planets ?w ! 2) = 0.03"
    using mount_invariants(3) [OF m r(1)] r(3) by (simp add: c selfRotationAngle_def)
  have "planets ?w ! 2 \<in> set (planets (step ?w Unmount))" using r(1) by (simp add: step_fields del: step.simps)
  from step_selfRotationAngle [OF wf this, of "Frame id 16"] a r(3)
  have "selfRotationAngle (step (step ?w Unmount) (Frame id 16)) (planets ?w ! 2) = 0.06"
    by simp
  with c u a show ?thesis by simp
qed

text \<open>
  Claim C3, amended: the cleanup that the effect returns only removes the renderer's
  canvas from the container. It leaves the store and the pending animation frame as they
  are and there is no Running or Stopped state, so a tick after unmount runs \<open>animate\<close>
  and writes every body's position and rotation exactly as it would have without the
  unmount.
\<close>

theorem C3_frames_run_after_unmount:
  assumes "mount ctl0 win now0 ref = Inr w0" and "cleanup (run w0 evs) = Inr w'"
    and "p \<in> set (planets w0)"
  shows "heap w' = heap (run w0 evs) \<and> rafRequests w' = rafRequests (run w0 evs) \<and>
         0 < rafRequests w' \<and>
         heap (step w' (Frame ctl now)) = heap (step (run w0 evs) (Frame ctl now)) \<and>
         selfRotationAngle (step w' (Frame ctl now)) p = selfRotationAngle w' p + rotationSpeed p \<and>
         planetPosition (step w' (Frame ctl now)) p =
           vec (distance p * cos (now * 0.0005 * orbitSpeed p)) 0
               (distance p * sin (now * 0.0005 * orbitSpeed p))"
proof -
  let ?w = "run w0 evs"
  note inv = run_invariants [OF assms(1), of evs]
  from cleanup_Inr [OF assms(2)] obtain cs where w': "w' = ?w\<lparr>mountRef := Some (removeAll Canvas cs)\<rparr>"
    by blast
  from assms(2) have u: "w' = step ?w Unmount" by simp
  have wf: "wellFormed w'" unfolding u using inv(1) by (rule step_wellFormed)
  have op: "onPlane w'" unfolding u using inv(1,2) by (rule step_onPlane)
  have ps: "planets w' = planets w0" using inv(3) by (simp add: w')
  have p: "p \<in> set (planets w')" using assms(3) ps by simp
  have "heap w' = heap ?w" "rafRequests w' = rafRequests ?w" by (simp_all add: w')
  moreover have "0 < rafRequests w'" using wf by (simp add: wellFormed_def)
  moreover have "heap (step w' (Frame ctl now)) = heap (step ?w (Frame ctl now))"
    by (simp add: w' frame_heap_mountRef)
  moreover have "selfRotationAngle (step w' (Frame ctl now)) p = selfRotationAngle w' p + rotationSpeed p"
    using step_selfRotationAngle [OF wf p, of "Frame ctl now"] by simp
  moreover have "planetPosition (step w' (Frame ctl now)) p =
           vec (distance p * cos (now * 0.0005 * orbitSpeed p)) 0
               (distance p * sin (now * 0.0005 * orbitSpeed p))"
    using frame_position [OF wf p, of ctl now] onPlane_y [OF op p] by simp
  ultimately show ?thesis by simp
qed

theorem C3_frames_run_after_unmount_witness:
  "mount id exampleWindow 0 (Some []) = Inr (mountedAt 0) \<and>
   cleanup (run (mountedAt 0) [Frame id 16]) = Inr (step (run (mountedAt 0) [Frame id 16]) Unmount) \<and>
   planets (mountedAt 0) ! 2 \<in> set (planets (mountedAt 0)) \<and>
   0 < rafRequests (step (run (mountedAt 0) [Frame id 16]) Unmount) \<and>
   selfRotationAngle (step (step (run (mountedAt 0) [Frame id 16]) Unmount) (Frame id 32))
       (planets (mountedAt 0) ! 2)
     = selfRotationAngle (step (run (mountedAt 0) [Frame id 16]) Unmount) (planets (mountedAt 0) ! 2)
       + rotationSpeed (planets (mountedAt 0) ! 2)"
proof -
  let ?w = "run (mountedAt 0) [Frame id 16]"
  have m: "mount id exampleWindow 0 (Some []) = Inr (mountedAt 0)" by (rule mountedAt)
  have p: "planets (mountedAt 0) ! 2 \<in> set (planets (mountedAt 0))"
    using mount_registry(1) [OF m, of 2] by simp
  from mount_invariants(5) [OF m] have "mountRef (mountedAt 0) = Some [Canvas]"
    by (simp add: appendChild_def)
  then have ref: "mountRef ?w = Some [Canvas]" by (simp add: run_mountRef)
  have c: "cleanup ?w = Inr (step ?w Unmount)"
    by (simp add: cleanup_attached [OF ref])
  from C3_frames_run_after_unmount [OF m c p, of id 32] show ?thesis
    using m c p by (simp del: step.simps)
qed

section \<open>Claim C10: the registry\<close>

text \<open>
  Claim C10: the registry built by the effect has eight planets in a fixed order; for
  every 0-based index \<open>i\<close>, \<open>rotationSpeed = 0.01 * (i + 1)\<close> and
  \<open>orbitSpeed = 0.02 / (i + 1)\<close>, both positive, so rotation speeds strictly increase
  and orbit speeds strictly decrease outwards; the distances are
  \<open>20, 30, 40, 50, 60, 70, 80, 100\<close>, strictly increasing; the texture, distance and name
  arrays all have length 8, so every planet gets a defined label, distance and texture.
\<close>

theorem C10_registry:
  assumes "mount ctl win now ref = Inr w"
  shows "length (planets w) = 8 \<and> length planetTextures = 8 \<and>
         length planetDistances = 8 \<and> length planetNames = 8 \<and>
         (\<forall>i<8. rotationSpeed (planets w ! i) = 0.01 * (real i + 1) \<and>
                 orbitSpeed (planets w ! i) = 0.02 / (real i + 1) \<and>
                 0 < rotationSpeed (planets w ! i) \<and> 0 < orbitSpeed (planets w ! i) \<and>
                 distance (planets w ! i) = planetDistances ! i \<and>
                 labelOf (heap w) (mesh (planets w ! i)) = Some (planetNames ! i) \<and>
                 kind (heap w ! mesh (planets w ! i)) =
                   Mesh (SphereGeometry 2 32 32) (MeshStandardMaterial (planetTextures ! i))) \<and>
         sorted_wrt (<) (map rotationSpeed (planets w)) \<and>
         sorted_wrt (>) (map orbitSpeed (planets w)) \<and>
         map distance (planets w) = [20, 30, 40, 50, 60, 70, 80, 100] \<and>
         sorted_wrt (<) (map distance (planets w))"
proof -
  from length_planetNames assms [unfolded mount_def]
  obtain h where f: "sceneFacts planetNames h (planets w)"
    and k: "map kind (heap w) = map kind h" and c: "map children (heap w) = map children h"
    and pa: "map parent (heap w) = map parent h"
    by (rule mountWith_scene)
  have lens: "length (planets w) = 8" "length planetTextures = 8"
    "length planetDistances = 8" "length planetNames = 8"
    using sceneFacts_planets(2) [OF f]
    by (simp_all add: planetTextures_def planetDistances_def planetNames_def)
  have row: "rotationSpeed (planets w ! i) = 0.01 * (real i + 1) \<and>
                 orbitSpeed (planets w ! i) = 0.02 / (real i + 1) \<and>
                 0 < rotationSpeed (planets w ! i) \<and> 0 < orbitSpeed (planets w ! i) \<and>
                 distance (planets w ! i) = planetDistances ! i \<and>
                 labelOf (heap w) (mesh (planets w ! i)) = Some (planetNames ! i) \<and>
                 kind (heap w ! mesh (planets w ! i)) =
                   Mesh (SphereGeometry 2 32 32) (MeshStandardMaterial (planetTextures ! i))"
    if i: "i < 8" for i
  proof -
    note r = sceneFacts_registry [OF f i]
    from sceneFacts_planets(4) [OF f r(8)] have m: "mesh (planets w ! i) < length h" by simp
    have "labelOf (heap w) (mesh (planets w ! i)) = Some (planetNames ! i)"
      using r(6) i lens(4) by (simp add: observers_skeleton(4) [OF k c pa] nth_opt_def)
    moreover have "kind (heap w ! mesh (planets w ! i)) =
        Mesh (SphereGeometry 2 32 32) (MeshStandardMaterial (planetTextures ! i))"
      using skeleton_nth [OF k m] r(5) by simp
    moreover have "distance (planets w ! i) = planetDistances ! i"
      using r(2) by (simp add: planetDistances_def)
    ultimately show ?thesis using r(3,4) by simp
  qed
  from f have "sorted_wrt (<) (map rotationSpeed (planets w))"
    "sorted_wrt (>) (map orbitSpeed (planets w))"
    "map distance (planets w) = [20, 30, 40, 50, 60, 70, 80, 100]"
    "sorted_wrt (<) (map distance (planets w))"
    by (simp_all add: sceneFacts_def)
  with lens row show ?thesis by blast
qed

theorem C10_registry_witness:
  "mount id exampleWindow 0 (Some []) = Inr (mountedAt 0) \<and> (2::nat) < 8 \<and>
   rotationSpeed (planets (mountedAt 0) ! 2) = 0.03 \<and>
   orbitSpeed (planets (mountedAt 0) ! 2) = 0.02 / 3 \<and>
   distance (planets (mountedAt 0) ! 2) = 40 \<and>
   labelOf (heap (mountedAt 0)) (mesh (planets (mountedAt 0) ! 2)) = Some ''Earth'' \<and>
   kind (heap (mountedAt 0) ! mesh (planets (mountedAt 0) ! 2)) =
     Mesh (SphereGeometry 2 32 32) (MeshStandardMaterial ''/assets/textures/earth.jpg'')"
proof -
  have m: "mount id exampleWindow 0 (Some []) = Inr (mountedAt 0)" by (rule mountedAt)
  from C10_registry [OF m] have "rotationSpeed (planets (mountedAt 0) ! 2) = 0.01 * (real 2 + 1) \<and>
                 orbitSpeed (planets (mountedAt 0) ! 2) = 0.02 / (real 2 + 1) \<and>
                 distance (planets (mountedAt 0) ! 2) = planetDistances ! 2 \<and>
                 labelOf (heap (mountedAt 0)) (mesh (planets (mountedAt 0) ! 2)) = Some (planetNames ! 2) \<and>
                 kind (heap (mountedAt 0) ! mesh (planets (mountedAt 0) ! 2)) =
                   Mesh (SphereGeometry 2 32 32) (MeshStandardMaterial (planetTextures ! 2))"
    by simp
  then show ?thesis using m
    by (simp add: planetDistances_def planetNames_def planetTextures_def)
qed

section \<open>Claims C4 and C8: what the scene holds after build\<close>

lemma mountWith_count:
  assumes "length names = length planetTextures" and "mountWith names ctl win now ref = Inr w"
  shows "sceneObjectCount w = Some (27 + (if ''Saturn'' \<in> set names then 1 else 0))"
    and "length (children (heap w ! scene w)) = 19" and "length (planets w) = 8"
proof -
  from assms obtain h where f: "sceneFacts names h (planets w)"
    and len: "length (heap w) = length h"
    and k: "map kind (heap w) = map kind h" and c: "map children (heap w) = map children h"
    and pa: "map parent (heap w) = map parent h" and sc: "scene w = 0"
    by (rule mountWith_scene)
  from f have l: "length h = 28 + (if indexOf names ''Saturn'' = -1 then 0 else 1)"
    and n: "map_option length (sceneObjects h) = Some (length h)"
    and ch: "length (children (h ! 0)) = 19"
    unfolding sceneFacts_def by blast+
  from n obtain xs where xs: "sceneObjects h = Some xs" "length xs = length h" by auto
  show "sceneObjectCount w = Some (27 + (if ''Saturn'' \<in> set names then 1 else 0))"
    using xs l
    by (simp add: sceneObjectCount_def observers_skeleton(1) [OF k c pa] indexOf_absent)
  from l have "0 < length h" by simp
  from skeleton_nth [OF c this] ch sc show "length (children (heap w ! scene w)) = 19" by simp
  from sceneFacts_planets(2) [OF f] show "length (planets w) = 8" .
qed

text \<open>
  Claim C4 counts \<open>2 * numberOfBodies + 1 + 1 + (0 or 1)\<close> objects in the scene after
  build, 19 for the eight planets with Saturn's ring, while naming a mesh, a label and an
  orbit guide per body, the central body and the ring. The built scene holds 28 objects
  below the scene root.
\<close>

theorem C4_counterexample:
  "sceneObjectCount (mountedAt 0) = Some 28 \<and> length (planets (mountedAt 0)) = 8 \<and>
   ''Saturn'' \<in> set planetNames \<and>
   sceneObjectCount (mountedAt 0) \<noteq>
     Some (2 * length (planets (mountedAt 0)) + 1 + 1 + (if ''Saturn'' \<in> set planetNames then 1 else 0))"
proof -
  have m: "mountWith planetNames id exampleWindow 0 (Some []) = Inr (mountedAt 0)"
    using mountedAt [of 0] by (simp add: mount_def)
  have s: "''Saturn'' \<in> set planetNames" by (simp add: planetNames_def)
  from mountWith_count(1,3) [OF length_planetNames m] s show ?thesis by simp
qed

text \<open>
  Claim C4, amended: immediately after scene build the scene holds
  \<open>3 * numberOfBodies\<close> per-body objects (a mesh, a label and an orbit guide for each
  body), plus 1 for the sun, plus 2 for the lights, plus 1 if some body's name is
  \<open>Saturn\<close> (the ring), else plus 0: 28 objects with the registry of the source. Of
  these, \<open>2 * numberOfBodies + 1 + 2 = 19\<close> are children of the scene itself (the
  labels and the ring are children of planet meshes).
\<close>

theorem C4_scene_object_count:
  assumes "length names = length planetTextures" and "mountWith names ctl win now ref = Inr w"
  shows "sceneObjectCount w =
           Some (3 * length (planets w) + 1 + 2 + (if ''Saturn'' \<in> set names then 1 else 0)) \<and>
         length (children (heap w ! scene w)) = 2 * length (planets w) + 1 + 2 \<and>
         length (planets w) = 8"
  using mountWith_count [OF assms] by simp

theorem C4_scene_object_count_witness:
  "length planetNames = length planetTextures \<and>
   mountWith planetNames id exampleWindow 0 (Some []) = Inr (mountedAt 0) \<and>
   sceneObjectCount (mountedAt 0) = Some 28 \<and>
   length (children (heap (mountedAt 0) ! scene (mountedAt 0))) = 19"
proof -
  have m: "mountWith planetNames id exampleWindow 0 (Some []) = Inr (mountedAt 0)"
    using mountedAt [of 0] by (simp add: mount_def)
  have s: "''Saturn'' \<in> set planetNames" by (simp add: planetNames_def)
  from C4_scene_object_count [OF length_planetNames m] s show ?thesis
    using length_planetNames m by simp
qed

lemma mountWith_ring:
  assumes "length names = length planetTextures" and "mountWith names ctl win now ref = Inr w"
  shows "''Saturn'' \<in> set names \<Longrightarrow>
           nat (indexOf names ''Saturn'') < length (planets w) \<and>
           names ! nat (indexOf names ''Saturn'') = ''Saturn'' \<and>
           labelOf (heap w) (mesh (planets w ! nat (indexOf names ''Saturn''))) = Some ''Saturn'' \<and>
           ringParents (heap w) = Some [Some (mesh (planets w ! nat (indexOf names ''Saturn'')))]"
    and "''Saturn'' \<notin> set names \<Longrightarrow> ringParents (heap w) = Some []"
proof -
  from assms obtain h where f: "sceneFacts names h (planets w)"
    and k: "map kind (heap w) = map kind h" and c: "map children (heap w) = map children h"
    and pa: "map parent (heap w) = map parent h"
    by (rule mountWith_scene)
  note obs = observers_skeleton [OF k c pa]
  from f have ra: "ringAttachments h = Some (if indexOf names ''Saturn'' = -1 then [] else [20])"
    and l: "length h = 28 + (if indexOf names ''Saturn'' = -1 then 0 else 1)"
    and par: "indexOf names ''Saturn'' \<noteq> -1 \<longrightarrow>
        parent (h ! 20) = Some (mesh (planets w ! nat (indexOf names ''Saturn'')))"
    unfolding sceneFacts_def by blast+
  have len: "length names = 8" using assms(1) by (simp add: planetTextures_def)
  show "ringParents (heap w) = Some []" if "''Saturn'' \<notin> set names"
    using that ra by (simp add: obs ringParents_def indexOf_absent)
  show "nat (indexOf names ''Saturn'') < length (planets w) \<and>
           names ! nat (indexOf names ''Saturn'') = ''Saturn'' \<and>
           labelOf (heap w) (mesh (planets w ! nat (indexOf names ''Saturn''))) = Some ''Saturn'' \<and>
           ringParents (heap w) = Some [Some (mesh (planets w ! nat (indexOf names ''Saturn'')))]"
    if "''Saturn'' \<in> set names"
  proof -
    let ?k = "nat (indexOf names ''Saturn'')"
    from that have ne: "indexOf names ''Saturn'' \<noteq> -1" by (simp add: indexOf_absent)
    with indexOf_range [of names "''Saturn''"] len have k8: "?k < 8" by auto
    from indexOf_nth [OF ne] have nm: "names ! ?k = ''Saturn''" .
    from sceneFacts_registry(6) [OF f k8] k8 len nm
    have lab: "labelOf (heap w) (mesh (planets w ! ?k)) = Some ''Saturn''"
      by (simp add: obs nth_opt_def)
    from ne l have "20 < length h" by simp
    with ne ra par have "ringParents h = Some [Some (mesh (planets w ! ?k))]"
      by (simp add: ringParents_def)
    with k8 nm lab sceneFacts_planets(2) [OF f] show ?thesis by (simp add: obs)
  qed
qed

text \<open>
  Claim C8: after scene build exactly one ring attachment exists and its parent is the
  body whose name is \<open>Saturn\<close> (the first such body of the name array); if no body has
  that name, no ring attachment exists and the build raises no error. The name array is
  taken as long as the texture array, as in the source.
\<close>

theorem C8_ring_attachment:
  assumes "length names = length planetTextures"
  shows "\<exists>w. mountWith names ctl win now (Some cs) = Inr w \<and>
           (''Saturn'' \<in> set names \<longrightarrow>
              nat (indexOf names ''Saturn'') < length (planets w) \<and>
              names ! nat (indexOf names ''Saturn'') = ''Saturn'' \<and>
              labelOf (heap w) (mesh (planets w ! nat (indexOf names ''Saturn''))) = Some ''Saturn'' \<and>
              ringParents (heap w) = Some [Some (mesh (planets w ! nat (indexOf names ''Saturn'')))]) \<and>
           (''Saturn'' \<notin> set names \<longrightarrow> ringParents (heap w) = Some [])"
proof -
  from build_facts [OF assms] obtain h ps where "buildScene names = Inr (h, 3, ps)" by blast
  from mountWith_succeeds [OF this] obtain w where w: "mountWith names ctl win now (Some cs) = Inr w"
    by blast
  from mountWith_ring [OF assms w] w show ?thesis by blast
qed

theorem C8_ring_attachment_witness:
  "length planetNames = length planetTextures \<and> ''Saturn'' \<in> set planetNames \<and>
   mountWith planetNames id exampleWindow 0 (Some []) = Inr (mountedAt 0) \<and>
   labelOf (heap (mountedAt 0)) (mesh (planets (mountedAt 0) ! 5)) = Some ''Saturn'' \<and>
   ringParents (heap (mountedAt 0)) = Some [Some (mesh (planets (mountedAt 0) ! 5))] \<and>
   length (replicate 8 ''Pluto'') = length planetTextures \<and>
   ''Saturn'' \<notin> set (replicate 8 ''Pluto'') \<and>
   \<not> isl (mountWith (replicate 8 ''Pluto'') id exampleWindow 0 (Some [])) \<and>
   ringParents (heap (projr (mountWith (replicate 8 ''Pluto'') id exampleWindow 0 (Some [])))) = Some []"
proof -
  have m: "mountWith planetNames id exampleWindow 0 (Some []) = Inr (mountedAt 0)"
    using mountedAt [of 0] by (simp add: mount_def)
  have s: "''Saturn'' \<in> set planetNames" by (simp add: planetNames_def)
  have i: "nat (indexOf planetNames ''Saturn'') = 5" by (simp add: indexOf_def planetNames_def)
  from C8_ring_attachment [OF length_planetNames, of id exampleWindow 0 "[]"] m s
  have a: "labelOf (heap (mountedAt 0)) (mesh (planets (mountedAt 0) ! 5)) = Some ''Saturn'' \<and>
    ringParents (heap (mountedAt 0)) = Some [Some (mesh (planets (mountedAt 0) ! 5))]"
    unfolding i by auto
  have l: "length (replicate 8 ''Pluto'') = length planetTextures"
    by (simp add: planetTextures_def)
  have n: "''Saturn'' \<notin> set (replicate 8 ''Pluto'')" by simp
  from C8_ring_attachment [OF l, of id exampleWindow 0 "[]"] n
  obtain w where "mountWith (replicate 8 ''Pluto'') id exampleWindow 0 (Some []) = Inr w"
    and "ringParents (heap w) = Some []"
    by blast
  then have b: "\<not> isl (mountWith (replicate 8 ''Pluto'') id exampleWindow 0 (Some []))"
    "ringParents (heap (projr (mountWith (replicate 8 ''Pluto'') id exampleWindow 0 (Some [])))) = Some []"
    by simp_all
  from a b l n m s length_planetNames show ?thesis by blast
qed

section \<open>Claim C5: calling the cleanup twice\<close>

text \<open>
  Claim C5 says a second unmount is a no-op that raises nothing. The cleanup calls
  \<open>removeChild\<close> without a guard: after the first call has removed the canvas, the
  second finds it missing and throws \<open>NotFoundError\<close>.
\<close>

theorem C5_counterexample:
  "cleanup (mountedAt 0) = Inr (step (mountedAt 0) Unmount) \<and>
   cleanup (step (mountedAt 0) Unmount) = Inl NotFoundError"
proof -
  let ?w = "mountedAt 0"
  have m: "mount id exampleWindow 0 (Some []) = Inr ?w" by (rule mountedAt)
  from mount_invariants(5) [OF m] have ref: "mountRef ?w = Some [Canvas]"
    by (simp add: appendChild_def)
  then have c: "cleanup ?w = Inr (?w\<lparr>mountRef := Some []\<rparr>)"
    using cleanup_attached [of ?w "[Canvas]"] by simp
  moreover have "cleanup (?w\<lparr>mountRef := Some []\<rparr>) = Inl NotFoundError"
    by (rule cleanup_detached [of _ "[]"]) simp_all
  ultimately show ?thesis by simp
qed

text \<open>
  Claim C5, amended: after mount, the first call of the cleanup removes the canvas from
  the container and returns (whatever frames and resizes came before it); every later
  call, at any point in time after the first, throws \<open>NotFoundError\<close> from
  \<open>removeChild\<close> and changes nothing.
\<close>

theorem C5_second_unmount_raises:
  assumes "mount ctl0 win now0 ref = Inr w0"
  shows "(Unmount \<notin> set evs \<longrightarrow> (\<exists>w1. cleanup (run w0 evs) = Inr w1)) \<and>
         (\<forall>w1. cleanup (run w0 evs) = Inr w1 \<longrightarrow>
            cleanup (run w1 evs') = Inl NotFoundError \<and>
            step (run w1 evs') Unmount = run w1 evs')"
proof (intro conjI impI allI)
  assume "Unmount \<notin> set evs"
  with mount_invariants(5) [OF assms] obtain cs
    where "mountRef (run w0 evs) = Some (appendChild Canvas cs)"
    by (auto simp: run_mountRef)
  from cleanup_attached [OF this] show "\<exists>w1. cleanup (run w0 evs) = Inr w1"
    by (simp add: appendChild_def)
next
  fix w1 assume "cleanup (run w0 evs) = Inr w1"
  from cleanup_Inr [OF this] obtain cs where "mountRef w1 = Some (removeAll Canvas cs)"
    by auto
  then have "mountRef (run w1 evs') = Some (removeAll Canvas cs)"
    by (rule run_detached) simp
  then have c: "cleanup (run w1 evs') = Inl NotFoundError"
    by (rule cleanup_detached) simp
  then show "cleanup (run w1 evs') = Inl NotFoundError" .
  from c show "step (run w1 evs') Unmount = run w1 evs'" by simp
qed

theorem C5_second_unmount_raises_witness:
  "mount id exampleWindow 0 (Some []) = Inr (mountedAt 0) \<and>
   Unmount \<notin> set [Frame id 16] \<and>
   cleanup (run (mountedAt 0) [Frame id 16]) = Inr (step (run (mountedAt 0) [Frame id 16]) Unmount) \<and>
   cleanup (run (step (run (mountedAt 0) [Frame id 16]) Unmount) [Resize exampleWindow, Frame id 32])
     = Inl NotFoundError"
proof -
  let ?w = "run (mountedAt 0) [Frame id 16]"
  have m: "mount id exampleWindow 0 (Some []) = Inr (mountedAt 0)" by (rule mountedAt)
  note t = C5_second_unmount_raises [OF m, of "[Frame id 16]" "[Resize exampleWindow, Frame id 32]"]
  from t obtain w1 where c: "cleanup ?w = Inr w1" by auto
  then have w1: "w1 = step ?w Unmount" by simp
  from t c have "cleanup (run w1 [Resize exampleWindow, Frame id 32]) = Inl NotFoundError"
    by blast
  with m c w1 show ?thesis by simp
qed

section \<open>Claim C6: the orbit is a circle with period \<open>2 pi / orbitSpeed\<close>\<close>

text \<open>
  Claim C6: for every body with \<open>orbitSpeed = r > 0\<close> and every time \<open>t\<close>, the position
  a tick computes lies on the circle of radius \<open>distance\<close> in the plane \<open>y = 0\<close>, and
  the position at \<open>t + 2 pi / r\<close> is the position at \<open>t\<close>. The time of the formula is
  \<open>t = Date.now() * 0.0005\<close>.
\<close>

theorem C6_circle_and_period:
  assumes "mount ctl0 win now0 ref = Inr w0" and "p \<in> set (planets w0)"
    and "0 < orbitSpeed p"
  shows "(vec_x (planetPosition (step (run w0 evs) (Frame ctl now)) p))\<^sup>2
           + (vec_z (planetPosition (step (run w0 evs) (Frame ctl now)) p))\<^sup>2 = (distance p)\<^sup>2 \<and>
         vec_y (planetPosition (step (run w0 evs) (Frame ctl now)) p) = 0 \<and>
         planetPosition (step (run w0 evs) (Frame ctl' (now + 2 * pi / orbitSpeed p / 0.0005))) p
           = planetPosition (step (run w0 evs) (Frame ctl now)) p"
proof -
  note inv = run_invariants [OF assms(1), of evs]
  have pos: "planetPosition (step (run w0 evs) (Frame c t)) p =
           vec (distance p * cos (t * 0.0005 * orbitSpeed p)) 0
               (distance p * sin (t * 0.0005 * orbitSpeed p))" for c t
    using assms(2) inv frame_position [of "run w0 evs" p c t] onPlane_y [of "run w0 evs" p]
    by simp
  let ?a = "now * 0.0005 * orbitSpeed p"
  have "(distance p * cos ?a)\<^sup>2 + (distance p * sin ?a)\<^sup>2
          = (distance p)\<^sup>2 * ((cos ?a)\<^sup>2 + (sin ?a)\<^sup>2)"
    by (simp only: power_mult_distrib distrib_left)
  then have circle: "(distance p * cos ?a)\<^sup>2 + (distance p * sin ?a)\<^sup>2 = (distance p)\<^sup>2"
    by simp
  have e: "(now + 2 * pi / orbitSpeed p / 0.0005) * 0.0005 * orbitSpeed p = ?a + 2 * pi"
    using assms(3) by (simp add: field_simps)
  have period: "cos ((now + 2 * pi / orbitSpeed p / 0.0005) * 0.0005 * orbitSpeed p) = cos ?a"
    "sin ((now + 2 * pi / orbitSpeed p / 0.0005) * 0.0005 * orbitSpeed p) = sin ?a"
    by (simp_all only: e cos_periodic sin_periodic)
  show ?thesis unfolding pos period using circle by (simp add: vec_def)
qed

theorem C6_circle_and_period_witness:
  "mount id exampleWindow 0 (Some []) = Inr (mountedAt 0) \<and>
   planets (mountedAt 0) ! 2 \<in> set (planets (mountedAt 0)) \<and>
   0 < orbitSpeed (planets (mountedAt 0) ! 2) \<and>
   (vec_x (planetPosition (step (mountedAt 0) (Frame id 1000)) (planets (mountedAt 0) ! 2)))\<^sup>2
     + (vec_z (planetPosition (step (mountedAt 0) (Frame id 1000)) (planets (mountedAt 0) ! 2)))\<^sup>2
     = 1600 \<and>
   planetPosition (step (mountedAt 0) (Frame id (1000 + 2 * pi / (0.02 / 3) / 0.0005)))
       (planets (mountedAt 0) ! 2)
     = planetPosition (step (mountedAt 0) (Frame id 1000)) (planets (mountedAt 0) ! 2)"
proof -
  let ?p = "planets (mountedAt 0) ! 2"
  have m: "mount id exampleWindow 0 (Some []) = Inr (mountedAt 0)" by (rule mountedAt)
  note r = mount_registry [OF m, of 2]
  have p: "?p \<in> set (planets (mountedAt 0))" using r(1) by simp
  have o: "orbitSpeed ?p = 0.02 / 3" using r(4) by simp
  have d: "distance ?p = 40" using r(2) by (simp add: planetDistances_def)
  have pos: "0 < orbitSpeed ?p" unfolding o by simp
  note t = C6_circle_and_period [OF m p pos, of "[]" id 1000 id, unfolded o d]
  from t m p pos show ?thesis by (simp add: run_def)
qed

section \<open>Claim C7: a tick is a function of the time and the body\<close>

text \<open>
  Claim C7: two ticks with the same time value, on bodies with the same registry fields
  and the same prior position and self-rotation angle, produce the same position and
  self-rotation angle, whatever else differs between the two worlds (the other bodies,
  the sun, the camera and what the controls do to it, the renderer, the container).
  Numbers are reals here, so "bit-identical" reads as equal.
\<close>

theorem C7_tick_deterministic:
  assumes "wellFormed w1" and "wellFormed w2"
    and "p1 \<in> set (planets w1)" and "p2 \<in> set (planets w2)"
    and "distance p1 = distance p2" and "orbitSpeed p1 = orbitSpeed p2"
    and "rotationSpeed p1 = rotationSpeed p2"
    and "planetPosition w1 p1 = planetPosition w2 p2"
    and "selfRotationAngle w1 p1 = selfRotationAngle w2 p2"
  shows "planetPosition (step w1 (Frame c1 now)) p1 = planetPosition (step w2 (Frame c2 now)) p2 \<and>
         selfRotationAngle (step w1 (Frame c1 now)) p1
           = selfRotationAngle (step w2 (Frame c2 now)) p2"
  using frame_position [OF assms(1,3), of c1 now] frame_position [OF assms(2,4), of c2 now]
    step_selfRotationAngle [OF assms(1,3), of "Frame c1 now"]
    step_selfRotationAngle [OF assms(2,4), of "Frame c2 now"] assms(5-9)
  by simp

theorem C7_tick_deterministic_witness:
  "wellFormed (mountedAt 0) \<and>
   wellFormed (run (mountedAt 0) [Resize \<lparr>innerWidth = 1920, innerHeight = 1080, devicePixelRatio = 2\<rparr>]) \<and>
   planets (mountedAt 0) ! 2 \<in> set (planets (mountedAt 0)) \<and>
   planetPosition (step (mountedAt 0) (Frame id 5000)) (planets (mountedAt 0) ! 2)
     = planetPosition
         (step (run (mountedAt 0) [Resize \<lparr>innerWidth = 1920, innerHeight = 1080, devicePixelRatio = 2\<rparr>])
            (Frame (\<lambda>c. c\<lparr>fov := 60\<rparr>) 5000))
         (planets (mountedAt 0) ! 2) \<and>
   selfRotationAngle (step (mountedAt 0) (Frame id 5000)) (planets (mountedAt 0) ! 2)
     = selfRotationAngle
         (step (run (mountedAt 0) [Resize \<lparr>innerWidth = 1920, innerHeight = 1080, devicePixelRatio = 2\<rparr>])
            (Frame (\<lambda>c. c\<lparr>fov := 60\<rparr>) 5000))
         (planets (mountedAt 0) ! 2)"
proof -
  let ?p = "planets (mountedAt 0) ! 2"
  let ?w2 = "run (mountedAt 0) [Resize \<lparr>innerWidth = 1920, innerHeight = 1080, devicePixelRatio = 2\<rparr>]"
  have m: "mount id exampleWindow 0 (Some []) = Inr (mountedAt 0)" by (rule mountedAt)
  have wf1: "wellFormed (mountedAt 0)" by (rule mount_invariants(1) [OF m])
  have wf2: "wellFormed ?w2" using wf1 by (rule run_wellFormed)
  have p1: "?p \<in> set (planets (mountedAt 0))" using mount_registry(1) [OF m, of 2] by simp
  have p2: "?p \<in> set (planets ?w2)" using p1 by (simp add: run_fields)
  have h: "heap ?w2 = heap (mountedAt 0)" by (simp add: run_def onResize_fields)
  have pos: "planetPosition (mountedAt 0) ?p = planetPosition ?w2 ?p"
    by (simp add: planetPosition_def h)
  have ang: "selfRotationAngle (mountedAt 0) ?p = selfRotationAngle ?w2 ?p"
    by (simp add: selfRotationAngle_def h)
  from C7_tick_deterministic [OF wf1 wf2 p1 p2 refl refl refl pos ang, of id 5000 "\<lambda>c. c\<lparr>fov := 60\<rparr>"]
  show ?thesis using wf1 wf2 p1 by blast
qed

section \<open>Claim C9: the resize listener\<close>

text \<open>
  Claim C9: handling a viewport resize to width \<open>w\<close> and height \<open>h\<close> sets the camera
  aspect ratio to \<open>w / h\<close> (and recomputes the projection with it) and the size of the
  render surface to \<open>(w, h)\<close>, and leaves the camera position unchanged; this holds after
  every sequence of earlier resizes, for instance \<open>(800, 600)\<close> then \<open>(1920, 1080)\<close>.
  The height is taken to be non-zero, where the quotient of the model is the quotient of
  the program.
\<close>

theorem C9_resize:
  assumes "innerHeight win \<noteq> 0"
  shows "aspect (camera (run w (map Resize (wins @ [win])))) = innerWidth win / innerHeight win \<and>
         projection_aspect (camera (run w (map Resize (wins @ [win]))))
           = innerWidth win / innerHeight win \<and>
         width (renderer (run w (map Resize (wins @ [win])))) = innerWidth win \<and>
         height (renderer (run w (map Resize (wins @ [win])))) = innerHeight win \<and>
         cam_position (camera (run w (map Resize (wins @ [win])))) = cam_position (camera w)"
proof -
  have pos: "cam_position (camera (run v (map Resize ws))) = cam_position (camera v)" for v ws
    unfolding run_def by (induction ws arbitrary: v) (simp_all add: onResize_def Let_def)
  have "run w (map Resize (wins @ [win])) = onResize win (run w (map Resize wins))"
    by (simp add: run_def)
  then show ?thesis using pos [of w wins] by (simp add: onResize_def Let_def)
qed

theorem C9_resize_witness:
  "innerHeight exampleWindow \<noteq> 0 \<and>
   innerHeight \<lparr>innerWidth = 1920, innerHeight = 1080, devicePixelRatio = 2\<rparr> \<noteq> 0 \<and>
   aspect (camera (run (mountedAt 0) [Resize exampleWindow])) = 800 / 600 \<and>
   aspect (camera (run (mountedAt 0) [Resize exampleWindow,
     Resize \<lparr>innerWidth = 1920, innerHeight = 1080, devicePixelRatio = 2\<rparr>])) = 1920 / 1080 \<and>
   width (renderer (run (mountedAt 0) [Resize exampleWindow,
     Resize \<lparr>innerWidth = 1920, innerHeight = 1080, devicePixelRatio = 2\<rparr>])) = 1920 \<and>
   height (renderer (run (mountedAt 0) [Resize exampleWindow,
     Resize \<lparr>innerWidth = 1920, innerHeight = 1080, devicePixelRatio = 2\<rparr>])) = 1080 \<and>
   cam_position (camera (run (mountedAt 0) [Resize exampleWindow,
     Resize \<lparr>innerWidth = 1920, innerHeight = 1080, devicePixelRatio = 2\<rparr>])) = vec 0 50 150"
proof -
  let ?big = "\<lparr>innerWidth = 1920, innerHeight = 1080, devicePixelRatio = 2\<rparr>"
  have h1: "innerHeight exampleWindow \<noteq> 0" by (simp add: exampleWindow_def)
  have h2: "innerHeight ?big \<noteq> 0" by simp
  have c: "cam_position (camera (mountedAt 0)) = vec 0 50 150"
    using mount_camera(1) [OF mountedAt, of 0] by simp
  from C9_resize [OF h1, of "mountedAt 0" "[]"] C9_resize [OF h2, of "mountedAt 0" "[exampleWindow]"]
  show ?thesis using h1 c by (simp add: exampleWindow_def)
qed

end
